theory Spec2Isabelle
  imports Main "HOL-Library.Sublist" "HOL-Library.AList"
begin

section \<open>Python strings\<close>

text \<open>
  Strings are lists of characters, a character being a code point below 256.  The
  operations below are the ones \<^verbatim>\<open>manage_docker_services.py\<close> applies to the output of
  the external commands: \<^verbatim>\<open>strip\<close>, \<^verbatim>\<open>lower\<close>, \<^verbatim>\<open>split\<close> and the substring test
  \<^verbatim>\<open>in\<close>.
\<close>

definition tab :: char where
  "tab = char_of (9::nat)"

definition newline :: char where
  "newline = char_of (10::nat)"

definition is_space :: "char \<Rightarrow> bool" where
  \<comment> \<open>\<^verbatim>\<open>str.isspace\<close> on the code points below 256\<close>
  "is_space c = (of_char c \<in> {9, 10, 11, 12, 13, 28, 29, 30, 31, 32, 133, 160 :: nat})"

definition str_strip :: "string \<Rightarrow> string" where
  \<comment> \<open>\<^verbatim>\<open>s.strip()\<close>\<close>
  "str_strip s = rev (dropWhile is_space (rev (dropWhile is_space s)))"

definition char_lower :: "char \<Rightarrow> char" where
  "char_lower c =
     (let n = (of_char c :: nat) in
      if (65 \<le> n \<and> n \<le> 90) \<or> (192 \<le> n \<and> n \<le> 222 \<and> n \<noteq> 215)
      then char_of (n + 32) else c)"

definition str_lower :: "string \<Rightarrow> string" where
  \<comment> \<open>\<^verbatim>\<open>s.lower()\<close>\<close>
  "str_lower s = map char_lower s"

fun str_contains :: "string \<Rightarrow> string \<Rightarrow> bool" where
  \<comment> \<open>\<^verbatim>\<open>sub in s\<close>, written \<open>str_contains sub s\<close>\<close>
  "str_contains sub [] = (sub = [])"
| "str_contains sub (c # cs) = (prefix sub (c # cs) \<or> str_contains sub cs)"

fun str_split :: "char \<Rightarrow> string \<Rightarrow> string list" where
  \<comment> \<open>\<^verbatim>\<open>s.split(sep)\<close> for a separator of one character\<close>
  "str_split sep [] = [[]]"
| "str_split sep (c # cs) =
     (if c = sep then [] # str_split sep cs
      else (case str_split sep cs of
              [] \<Rightarrow> [[c]]
            | w # ws \<Rightarrow> (c # w) # ws))"

definition str_split1 :: "char \<Rightarrow> string \<Rightarrow> string \<times> string" where
  \<comment> \<open>\<^verbatim>\<open>a, b = s.split(sep, 1)\<close> for a string \<open>s\<close> that contains \<open>sep\<close>\<close>
  "str_split1 sep s = (takeWhile (\<lambda>c. c \<noteq> sep) s, tl (dropWhile (\<lambda>c. c \<noteq> sep) s))"

definition py_any :: "('a \<Rightarrow> bool) \<Rightarrow> 'a list \<Rightarrow> bool" where
  \<comment> \<open>\<^verbatim>\<open>any(p(x) for x in xs)\<close>\<close>
  "py_any p xs = list_ex p xs"

section \<open>The targeted image-removal filter\<close>

text \<open>
  The pure part of \<^verbatim>\<open>_remove_aiforge_built_images_only\<close> (lines 404 to 415): from the
  standard output of the image listing to the list \<^verbatim>\<open>images_to_remove\<close>.
\<close>

definition preserve_images :: "string list" where
  "preserve_images = [''python'', ''searxng/searxng'', ''nginx'']"

fun collect_images :: "string list \<Rightarrow> string list \<Rightarrow> string list" where
  \<comment> \<open>the \<^verbatim>\<open>for line in ...\<close> loop; the second argument is \<^verbatim>\<open>images_to_remove\<close>\<close>
  "collect_images [] images_to_remove = images_to_remove"
| "collect_images (line # lines) images_to_remove =
     (if tab \<in> set line then
        (let (repo_tag, image_id) = str_split1 tab line;
             repo = hd (str_split (CHR '':'') repo_tag)
         in if py_any (\<lambda>keyword. str_contains keyword (str_lower repo)) [''aiforge''] then
              if \<not> py_any (\<lambda>base. str_contains base (str_lower repo)) preserve_images then
                collect_images lines (images_to_remove @ [image_id])
              else collect_images lines images_to_remove
            else collect_images lines images_to_remove)
      else collect_images lines images_to_remove)"

definition images_to_remove_of :: "string \<Rightarrow> string list" where
  "images_to_remove_of out = collect_images (str_split newline (str_strip out)) []"

section \<open>Exceptions, external effects and the world\<close>

text \<open>
  The script does nothing but call external commands, look at files and branch on the
  results.  The model makes that explicit.  Every operation on the outside world appends
  an event, with its outcome, to a log (oldest event first), and the outcome is chosen
  by a \<open>world\<close>: a record of functions from the log so far and the request to the
  outcome.  The same command may therefore answer differently each time it is issued.
  A raised exception is the \<open>Inl\<close> of a sum.

  Console output (\<^verbatim>\<open>print\<close>) is not part of the model: no printed text is ever read
  back, and printing is assumed not to raise.

  A command started with \<^verbatim>\<open>subprocess\<close>, and the reading and the writing of the settings
  file, either complete or raise any exception, \<^verbatim>\<open>KeyboardInterrupt\<close> included.
  \<^verbatim>\<open>time.sleep\<close> returns or is interrupted.  \<^verbatim>\<open>Path.exists\<close> answers, and
  \<^verbatim>\<open>import yaml\<close> succeeds or raises \<^verbatim>\<open>ImportError\<close>.
\<close>

datatype exn =
    FileNotFoundError
  | CalledProcessError
  | KeyError
  | TypeError
  | AttributeError
  | OtherException
  | KeyboardInterrupt

definition is_Exception :: "exn \<Rightarrow> bool" where
  \<comment> \<open>what \<^verbatim>\<open>except Exception\<close> catches: \<^verbatim>\<open>KeyboardInterrupt\<close> derives from
      \<^verbatim>\<open>BaseException\<close> only\<close>
  "is_Exception e = (e \<noteq> KeyboardInterrupt)"

record completed_process =
  returncode :: int
  stdout :: string
  stderr :: string

datatype yaml =
    YNull
  | YBool bool
  | YInt int
  | YStr string
  | YSeq "yaml list"
  | YMap "(string \<times> yaml) list"

datatype event =
    Run "string list" "exn + completed_process"
  | Popen "string list" "exn + completed_process"
  | Exists string bool
  | Sleep nat bool
  | ImportYaml bool
  | LoadYaml string "exn + yaml"
  | DumpYaml string yaml "exn + unit"
  | PackageResource string "exn + string"

record world =
  run_outcome :: "event list \<Rightarrow> string list \<Rightarrow> exn + completed_process"
  popen_outcome :: "event list \<Rightarrow> string list \<Rightarrow> exn + completed_process"
  path_exists :: "event list \<Rightarrow> string \<Rightarrow> bool"
  sleep_interrupted :: "event list \<Rightarrow> nat \<Rightarrow> bool"
  yaml_available :: "event list \<Rightarrow> bool"
  load_outcome :: "event list \<Rightarrow> string \<Rightarrow> exn + yaml"
  dump_outcome :: "event list \<Rightarrow> string \<Rightarrow> yaml \<Rightarrow> exn + unit"
  cwd :: string
  package_resource :: "event list \<Rightarrow> string \<Rightarrow> exn + string"

type_synonym 'a io = "event list \<Rightarrow> (exn + 'a) \<times> event list"

definition return :: "'a \<Rightarrow> 'a io" where
  "return x = (\<lambda>s. (Inr x, s))"

definition raise :: "exn \<Rightarrow> 'a io" where
  "raise e = (\<lambda>s. (Inl e, s))"

definition bind :: "'a io \<Rightarrow> ('a \<Rightarrow> 'b io) \<Rightarrow> 'b io" where
  "bind m f = (\<lambda>s. case m s of (Inl e, s') \<Rightarrow> (Inl e, s') | (Inr x, s') \<Rightarrow> f x s')"

definition try_except :: "'a io \<Rightarrow> (exn \<Rightarrow> bool) \<Rightarrow> 'a io \<Rightarrow> 'a io" where
  \<comment> \<open>\<^verbatim>\<open>try: m  except <catches>: handler\<close>: the value of \<open>m\<close>, or of the handler when
      \<open>m\<close> raised an exception that the clause catches\<close>
  "try_except m catches handler =
     (\<lambda>s. case m s of
             (Inl e, s') \<Rightarrow> if catches e then handler s' else (Inl e, s')
           | (Inr x, s') \<Rightarrow> (Inr x, s'))"

definition try_except_return :: "'a io \<Rightarrow> (exn \<Rightarrow> bool) \<Rightarrow> 'b io \<Rightarrow> ('a \<Rightarrow> 'b io) \<Rightarrow> 'b io" where
  \<comment> \<open>\<^verbatim>\<open>try: x = m  except <catches>: return handler\<close>, followed by the rest of the
      function, \<open>cont x\<close>: the handler leaves the function, and what the rest raises is
      not caught\<close>
  "try_except_return m catches handler cont =
     (\<lambda>s. case m s of
             (Inl e, s') \<Rightarrow> if catches e then handler s' else (Inl e, s')
           | (Inr x, s') \<Rightarrow> cont x s')"

definition lift :: "exn + 'a \<Rightarrow> 'a io" where
  \<comment> \<open>a computation without external effect\<close>
  "lift r = (\<lambda>s. (r, s))"

definition subprocess_run :: "world \<Rightarrow> string list \<Rightarrow> completed_process io" where
  \<comment> \<open>\<^verbatim>\<open>subprocess.run(cmd, ...)\<close> without \<^verbatim>\<open>check\<close>\<close>
  "subprocess_run W cmd = (\<lambda>s. let r = run_outcome W s cmd in (r, s @ [Run cmd r]))"

definition subprocess_run_check :: "world \<Rightarrow> string list \<Rightarrow> completed_process io" where
  \<comment> \<open>\<^verbatim>\<open>subprocess.run(cmd, ..., check=True)\<close>\<close>
  "subprocess_run_check W cmd =
     bind (subprocess_run W cmd) (\<lambda>result.
       if returncode result \<noteq> 0 then raise CalledProcessError else return result)"

definition subprocess_Popen :: "world \<Rightarrow> string list \<Rightarrow> completed_process io" where
  \<comment> \<open>\<^verbatim>\<open>subprocess.Popen(cmd, ...)\<close>, the loop over \<^verbatim>\<open>process.stdout\<close> (which only
      prints) and \<^verbatim>\<open>process.wait()\<close>\<close>
  "subprocess_Popen W cmd = (\<lambda>s. let r = popen_outcome W s cmd in (r, s @ [Popen cmd r]))"

definition Path_exists :: "world \<Rightarrow> string \<Rightarrow> bool io" where
  "Path_exists W p = (\<lambda>s. let b = path_exists W s p in (Inr b, s @ [Exists p b]))"

definition time_sleep :: "world \<Rightarrow> nat \<Rightarrow> unit io" where
  \<comment> \<open>\<^verbatim>\<open>time.sleep(n)\<close>: returns, or is interrupted\<close>
  "time_sleep W n =
     (\<lambda>s. let b = sleep_interrupted W s n
          in (if b then Inl KeyboardInterrupt else Inr (), s @ [Sleep n b]))"

definition import_yaml :: "world \<Rightarrow> bool io" where
  \<comment> \<open>\<^verbatim>\<open>try: import yaml  except ImportError: ...\<close>; True when the import succeeded\<close>
  "import_yaml W = (\<lambda>s. let b = yaml_available W s in (Inr b, s @ [ImportYaml b]))"

definition yaml_safe_load :: "world \<Rightarrow> string \<Rightarrow> yaml io" where
  \<comment> \<open>\<^verbatim>\<open>with open(p, "r", ...) as f: config = yaml.safe_load(f)\<close>\<close>
  "yaml_safe_load W p = (\<lambda>s. let r = load_outcome W s p in (r, s @ [LoadYaml p r]))"

definition yaml_dump :: "world \<Rightarrow> string \<Rightarrow> yaml \<Rightarrow> unit io" where
  \<comment> \<open>\<^verbatim>\<open>with open(p, "w", ...) as f: yaml.dump(config, f, ...)\<close>\<close>
  "yaml_dump W p config = (\<lambda>s. let r = dump_outcome W s p config in (r, s @ [DumpYaml p config r]))"

definition dict_getitem :: "(string \<rightharpoonup> 'a) \<Rightarrow> string \<Rightarrow> 'a io" where
  \<comment> \<open>\<^verbatim>\<open>d[k]\<close>\<close>
  "dict_getitem d k = (case d k of None \<Rightarrow> raise KeyError | Some v \<Rightarrow> return v)"

section \<open>The service manager\<close>

record manager =
  compose_file :: string
  dev_compose_file :: string

definition path_join :: "string \<Rightarrow> string \<Rightarrow> string" where
  \<comment> \<open>\<^verbatim>\<open>a / b\<close> of \<^verbatim>\<open>pathlib\<close>, for a relative \<open>b\<close>\<close>
  "path_join a b = (if a \<noteq> [] \<and> last a = CHR ''/'' then a @ b else a @ ''/'' @ b)"

definition is_source_environment :: "world \<Rightarrow> bool io" where
  "is_source_environment W =
     (let current_dir = cwd W in
      bind (Path_exists W (path_join (path_join current_dir ''src'') ''aiforge'')) (\<lambda>a.
      if \<not> a then return False else
      bind (Path_exists W (path_join current_dir ''docker-compose.yml'')) (\<lambda>b.
      if \<not> b then return False else
      Path_exists W (path_join current_dir ''pyproject.toml''))))"

definition get_package_resource :: "world \<Rightarrow> string \<Rightarrow> string io" where
  \<comment> \<open>the path that \<^verbatim>\<open>importlib.resources\<close> or \<^verbatim>\<open>pkg_resources\<close> computes for a file of
      the package: library code, an outcome of the world\<close>
  "get_package_resource W filename =
     (\<lambda>s. let r = package_resource W s filename in (r, s @ [PackageResource filename r]))"

definition init :: "world \<Rightarrow> manager io" where
  \<comment> \<open>\<^verbatim>\<open>DockerServiceManager.__init__\<close>\<close>
  "init W =
     bind (is_source_environment W) (\<lambda>src.
     if src then
       return \<lparr>compose_file = ''docker-compose.yml'', dev_compose_file = ''docker-compose.dev.yml''\<rparr>
     else
       bind (get_package_resource W ''docker-compose.yml'') (\<lambda>c.
       bind (get_package_resource W ''docker-compose.dev.yml'') (\<lambda>d.
       return \<lparr>compose_file = c, dev_compose_file = d\<rparr>)))"

definition images_cmd :: "string list" where
  \<comment> \<open>the image listing with the name filter, lines 119 to 126 and 147 to 154\<close>
  "images_cmd =
     [''docker'', ''images'', ''--format'', ''{{.Repository}}:{{.Tag}}'',
      ''--filter'', ''reference=*aiforge*'']"

definition initial_checks :: "string \<rightharpoonup> bool" where
  "initial_checks =
     [''docker_available'' \<mapsto> False,
      ''docker_compose_available'' \<mapsto> False,
      ''docker_running'' \<mapsto> False,
      ''compose_file_exists'' \<mapsto> False,
      ''dev_compose_file_exists'' \<mapsto> False,
      ''aiforge_image_exists'' \<mapsto> False]"

definition check_docker_environment :: "world \<Rightarrow> manager \<Rightarrow> (string \<rightharpoonup> bool) io" where
  "check_docker_environment W self =
     (let checks = initial_checks in
      try_except_return (subprocess_run W [''docker'', ''--version''])
        (\<lambda>e. e = FileNotFoundError) (return checks) (\<lambda>result.
      if returncode result \<noteq> 0 then return checks else
      let checks = checks(''docker_available'' \<mapsto> True) in
      try_except_return (subprocess_run W [''docker'', ''info''])
        is_Exception (return checks) (\<lambda>result.
      if returncode result \<noteq> 0 then return checks else
      let checks = checks(''docker_running'' \<mapsto> True) in
      bind (try_except
              (bind (subprocess_run W [''docker-compose'', ''--version'']) (\<lambda>result.
                 return (if returncode result = 0
                         then checks(''docker_compose_available'' \<mapsto> True) else checks)))
              (\<lambda>e. e = FileNotFoundError) (return checks)) (\<lambda>checks.
      bind (Path_exists W (compose_file self)) (\<lambda>ex.
      let checks = (if ex then checks(''compose_file_exists'' \<mapsto> True) else checks) in
      bind (Path_exists W (dev_compose_file self)) (\<lambda>ex.
      let checks = (if ex then checks(''dev_compose_file_exists'' \<mapsto> True) else checks) in
      bind (try_except
              (bind (subprocess_run W images_cmd) (\<lambda>result.
                 return (if str_strip (stdout result) \<noteq> []
                         then checks(''aiforge_image_exists'' \<mapsto> True) else checks)))
              is_Exception (return checks)) (\<lambda>checks.
      return checks)))))))"

definition build_images_if_needed :: "world \<Rightarrow> manager \<Rightarrow> bool \<Rightarrow> bool io" where
  "build_images_if_needed W self dev_mode =
     try_except
       (bind (subprocess_run W images_cmd) (\<lambda>result.
        if str_strip (stdout result) \<noteq> [] then return True else
        bind (if dev_mode then Path_exists W (dev_compose_file self) else return False) (\<lambda>dev.
        let cmd = [''docker-compose''] @
                  (if dev then [''-f'', compose_file self, ''-f'', dev_compose_file self]
                   else [''-f'', compose_file self]) @
                  [''build'', ''--no-cache''] in
        bind (subprocess_Popen W cmd) (\<lambda>process.
        if returncode process = 0 then return True else return False))))
       is_Exception (return False)"

definition services :: "(string \<times> string) list" where
  "services =
     [(''aiforge-engine'', ''8000''), (''aiforge-searxng'', ''8080''), (''aiforge-nginx'', ''55510'')]"

fun health_loop :: "world \<Rightarrow> (string \<times> string) list \<Rightarrow> unit io" where
  \<comment> \<open>the \<^verbatim>\<open>for service, port in services.items()\<close> loop; the status is only printed\<close>
  "health_loop W [] = return ()"
| "health_loop W ((service, port) # rest) =
     bind (try_except
             (bind (subprocess_run W
                      [''docker'', ''ps'', ''--filter'', ''name='' @ service,
                       ''--format'', ''{{.Status}}'']) (\<lambda>result.
              return ()))
             is_Exception (return ()))
       (\<lambda>_. health_loop W rest)"

definition check_service_health :: "world \<Rightarrow> unit io" where
  "check_service_health W = health_loop W services"

definition show_service_urls :: "unit io" where
  \<comment> \<open>prints only\<close>
  "show_service_urls = return ()"

subsection \<open>The SearXNG settings\<close>

text \<open>
  The value that \<^verbatim>\<open>yaml.safe_load\<close> returns is a \<open>yaml\<close>: null, a truth value, an
  integer, a string, a list, or a mapping (an association list in insertion order, its
  keys strings).  Other scalars and other keys are left out.  The operations are
  Python's, with the exception each raises on a value of the wrong shape.

  A Python set is a HOL set of values.  Python identifies \<^verbatim>\<open>1\<close> and \<^verbatim>\<open>True\<close> in a set
  and HOL does not; the only comparison made is with a set of four strings, where the
  two agree.
\<close>

definition ebind :: "exn + 'a \<Rightarrow> ('a \<Rightarrow> exn + 'b) \<Rightarrow> exn + 'b" where
  "ebind r f = (case r of Inl e \<Rightarrow> Inl e | Inr x \<Rightarrow> f x)"

fun py_in :: "string \<Rightarrow> yaml \<Rightarrow> exn + bool" where
  \<comment> \<open>\<^verbatim>\<open>k in v\<close>\<close>
  "py_in k (YMap kvs) = Inr (k \<in> fst ` set kvs)"
| "py_in k (YSeq xs) = Inr (YStr k \<in> set xs)"
| "py_in k (YStr s) = Inr (str_contains k s)"
| "py_in k v = Inl TypeError"

fun py_getitem :: "yaml \<Rightarrow> string \<Rightarrow> exn + yaml" where
  \<comment> \<open>\<^verbatim>\<open>v[k]\<close> for a string \<open>k\<close>\<close>
  "py_getitem (YMap kvs) k = (case map_of kvs k of None \<Rightarrow> Inl KeyError | Some x \<Rightarrow> Inr x)"
| "py_getitem v k = Inl TypeError"

fun py_setitem :: "yaml \<Rightarrow> string \<Rightarrow> yaml \<Rightarrow> exn + yaml" where
  \<comment> \<open>\<^verbatim>\<open>v[k] = x\<close> for a string \<open>k\<close>; the result is the value of \<open>v\<close> after the assignment\<close>
  "py_setitem (YMap kvs) k x = Inr (YMap (AList.update k x kvs))"
| "py_setitem v k x = Inl TypeError"

fun py_get :: "yaml \<Rightarrow> string \<Rightarrow> yaml \<Rightarrow> exn + yaml" where
  \<comment> \<open>\<^verbatim>\<open>v.get(k, default)\<close>\<close>
  "py_get (YMap kvs) k d = Inr (case map_of kvs k of None \<Rightarrow> d | Some x \<Rightarrow> x)"
| "py_get v k d = Inl AttributeError"

fun hashable :: "yaml \<Rightarrow> bool" where
  "hashable (YSeq xs) = False"
| "hashable (YMap kvs) = False"
| "hashable v = True"

fun py_set :: "yaml \<Rightarrow> exn + yaml set" where
  \<comment> \<open>\<^verbatim>\<open>set(v)\<close>: the elements of a list, the characters of a string, the keys of a mapping\<close>
  "py_set (YSeq xs) = (if list_all hashable xs then Inr (set xs) else Inl TypeError)"
| "py_set (YStr s) = Inr ((\<lambda>c. YStr [c]) ` set s)"
| "py_set (YMap kvs) = Inr ((\<lambda>kv. YStr (fst kv)) ` set kvs)"
| "py_set v = Inl TypeError"

definition required_formats :: yaml where
  "required_formats = YSeq [YStr ''html'', YStr ''json'', YStr ''csv'', YStr ''rss'']"

definition update_formats :: "yaml \<Rightarrow> exn + yaml option" where
  \<comment> \<open>lines 474 to 481: \<open>Some\<close> of the configuration to write when the formats differ,
      \<open>None\<close> when they do not.  The assignment to \<^verbatim>\<open>config["search"]["formats"]\<close>
      changes the mapping that \<^verbatim>\<open>config["search"]\<close> holds, so the changed mapping is
      stored back.\<close>
  "update_formats config =
     ebind (py_in ''search'' config) (\<lambda>has.
     ebind (if \<not> has then py_setitem config ''search'' (YMap []) else Inr config) (\<lambda>config.
     ebind (py_getitem config ''search'') (\<lambda>search.
     ebind (py_get search ''formats'' (YSeq [])) (\<lambda>current_formats.
     ebind (py_set current_formats) (\<lambda>current.
     ebind (py_set required_formats) (\<lambda>required.
     if current \<noteq> required then
       ebind (py_setitem search ''formats'' required_formats) (\<lambda>search.
       ebind (py_setitem config ''search'' search) (\<lambda>config.
       Inr (Some config)))
     else Inr None))))))"

definition settings_file :: string where
  "settings_file = ''searxng/settings.yml''"

definition check_and_update_searxng_formats :: "world \<Rightarrow> bool io" where
  "check_and_update_searxng_formats W =
     bind (import_yaml W) (\<lambda>imported.
     if \<not> imported then return False else
     bind (Path_exists W settings_file) (\<lambda>ex.
     if \<not> ex then return False else
     try_except
       (bind (yaml_safe_load W settings_file) (\<lambda>config.
        bind (lift (update_formats config)) (\<lambda>upd.
        case upd of
          Some config \<Rightarrow> bind (yaml_dump W settings_file config) (\<lambda>_. return True)
        | None \<Rightarrow> return False)))
       is_Exception (return False)))"

subsection \<open>Start, stop and status\<close>

definition start_services :: "world \<Rightarrow> manager \<Rightarrow> bool \<Rightarrow> bool io" where
  "start_services W self dev_mode =
     bind (check_docker_environment W self) (\<lambda>checks.
     bind (dict_getitem checks ''docker_available'') (\<lambda>c.
     if \<not> c then return False else
     bind (dict_getitem checks ''docker_running'') (\<lambda>c.
     if \<not> c then return False else
     bind (dict_getitem checks ''docker_compose_available'') (\<lambda>c.
     if \<not> c then return False else
     bind (dict_getitem checks ''compose_file_exists'') (\<lambda>c.
     if \<not> c then return False else
     bind (if dev_mode
           then bind (dict_getitem checks ''dev_compose_file_exists'') (\<lambda>c. return (\<not> c))
           else return False) (\<lambda>downgrade.
     let dev_mode = (if downgrade then False else dev_mode) in
     bind (build_images_if_needed W self dev_mode) (\<lambda>built.
     if \<not> built then return False else
     try_except
       (bind (subprocess_run W [''docker-compose'', ''down'']) (\<lambda>_.
        let cmd = [''docker-compose''] @
                  (if dev_mode then [''-f'', compose_file self, ''-f'', dev_compose_file self]
                   else [''-f'', compose_file self]) @
                  [''up'', ''-d''] in
        bind (subprocess_run W cmd) (\<lambda>result.
        if returncode result = 0 then
          bind show_service_urls (\<lambda>_.
          bind (time_sleep W 10) (\<lambda>_.
          bind (check_service_health W) (\<lambda>_.
          bind (check_and_update_searxng_formats W) (\<lambda>_.
          return True))))
        else return False)))
       is_Exception (return False))))))))"

definition stop_services :: "world \<Rightarrow> manager \<Rightarrow> bool io" where
  "stop_services W self =
     bind (Path_exists W (compose_file self)) (\<lambda>ex.
     if \<not> ex then return False else
     try_except
       (bind (subprocess_run_check W [''docker-compose'', ''-f'', compose_file self, ''down''])
          (\<lambda>_. return True))
       (\<lambda>e. e = CalledProcessError) (return False))"

definition show_status :: "world \<Rightarrow> manager \<Rightarrow> unit io" where
  "show_status W self =
     try_except
       (bind (subprocess_run_check W [''docker-compose'', ''ps'']) (\<lambda>result.
        check_service_health W))
       (\<lambda>e. e = CalledProcessError) (return ())"

subsection \<open>Cleanup\<close>

definition cleanup :: "world \<Rightarrow> manager \<Rightarrow> bool io" where
  "cleanup W self =
     try_except
       (bind (subprocess_run W [''docker-compose'', ''down'', ''-v'']) (\<lambda>_.
        bind (subprocess_run W
                [''docker'', ''image'', ''prune'', ''-f'', ''--filter'',
                 ''label=com.docker.compose.project=aiforge'']) (\<lambda>_.
        return True)))
       is_Exception (return False)"

fun rmi_loop :: "world \<Rightarrow> string list \<Rightarrow> unit io" where
  \<comment> \<open>\<^verbatim>\<open>for image_id in images_to_remove: subprocess.run(["docker", "rmi", "-f", image_id], ...)\<close>\<close>
  "rmi_loop W [] = return ()"
| "rmi_loop W (image_id # rest) =
     bind (subprocess_run W [''docker'', ''rmi'', ''-f'', image_id]) (\<lambda>_. rmi_loop W rest)"

definition list_cmd :: "string list" where
  "list_cmd = [''docker'', ''images'', ''--format'', ''{{.Repository}}:{{.Tag}}'' @ [tab] @ ''{{.ID}}'']"

definition remove_aiforge_built_images_only :: "world \<Rightarrow> manager \<Rightarrow> unit io" where
  "remove_aiforge_built_images_only W self =
     try_except
       (bind (subprocess_run W list_cmd) (\<lambda>result.
        if str_strip (stdout result) = [] then return () else
        rmi_loop W (images_to_remove_of (stdout result))))
       is_Exception (return ())"

definition deep_cleanup :: "world \<Rightarrow> manager \<Rightarrow> bool io" where
  "deep_cleanup W self =
     try_except
       (bind (subprocess_run W [''docker-compose'', ''down'', ''-v'', ''--remove-orphans'']) (\<lambda>_.
        bind (remove_aiforge_built_images_only W self) (\<lambda>_.
        bind (subprocess_run W [''docker'', ''builder'', ''prune'', ''-f'']) (\<lambda>_.
        bind (subprocess_run W [''docker'', ''image'', ''prune'', ''-f'']) (\<lambda>_.
        bind (subprocess_run W [''docker'', ''volume'', ''prune'', ''-f'']) (\<lambda>_.
        return True))))))
       is_Exception (return False)"

subsection \<open>The command line\<close>

definition choices :: "string list" where
  "choices = [''start'', ''stop'', ''status'', ''cleanup'', ''deep-cleanup'']"

definition main :: "world \<Rightarrow> string \<Rightarrow> bool \<Rightarrow> int io" where
  \<comment> \<open>\<open>action\<close> and \<open>dev\<close> are the parsed arguments; the result is the exit code.
      \<^verbatim>\<open>argparse\<close> exits with code 2 on an action outside \<^verbatim>\<open>choices\<close>.  The two handlers
      of the \<^verbatim>\<open>try\<close> do the same.\<close>
  "main W action dev =
     (if action \<notin> set choices then return 2 else
      bind (init W) (\<lambda>manager.
      bind (try_except
              (if action = ''start'' then start_services W manager dev
               else if action = ''stop'' then stop_services W manager
               else if action = ''status'' then bind (show_status W manager) (\<lambda>_. return True)
               else if action = ''cleanup'' then cleanup W manager
               else if action = ''deep-cleanup'' then deep_cleanup W manager
               else return False)
              (\<lambda>e. e = KeyboardInterrupt \<or> is_Exception e) (return False)) (\<lambda>success.
      return (if success then 0 else 1))))"

section \<open>Notions of the specification\<close>

text \<open>
  The definitions of this section follow the words of the specification, not the code;
  the theorems compare the two.
\<close>

definition repository_name :: "string \<Rightarrow> string" where
  \<comment> \<open>the substring of the \<^verbatim>\<open>repository:tag\<close> field before the first colon\<close>
  "repository_name repo_tag = takeWhile (\<lambda>c. c \<noteq> CHR '':'') repo_tag"

definition marked_for_removal :: "string \<Rightarrow> bool" where
  \<comment> \<open>contains the marker and none of the preserved fragments, case-insensitively\<close>
  "marked_for_removal repo =
     (sublist ''aiforge'' (str_lower repo)
      \<and> \<not> sublist ''python'' (str_lower repo)
      \<and> \<not> sublist ''searxng/searxng'' (str_lower repo)
      \<and> \<not> sublist ''nginx'' (str_lower repo))"

definition check_keys :: "string set" where
  "check_keys =
     {''docker_available'', ''docker_compose_available'', ''docker_running'',
      ''compose_file_exists'', ''dev_compose_file_exists'', ''aiforge_image_exists''}"

definition detected :: "bool \<Rightarrow> bool \<Rightarrow> bool \<Rightarrow> bool \<Rightarrow> bool \<Rightarrow> bool \<Rightarrow> (string \<rightharpoonup> bool)" where
  \<comment> \<open>the result mapping with the given six entries\<close>
  "detected da dca dr cfe dcfe aie =
     [''docker_available'' \<mapsto> da,
      ''docker_compose_available'' \<mapsto> dca,
      ''docker_running'' \<mapsto> dr,
      ''compose_file_exists'' \<mapsto> cfe,
      ''dev_compose_file_exists'' \<mapsto> dcfe,
      ''aiforge_image_exists'' \<mapsto> aie]"

definition succeeded :: "exn + completed_process \<Rightarrow> bool" where
  \<comment> \<open>the command ran and exited with status zero\<close>
  "succeeded r = (case r of Inl e \<Rightarrow> False | Inr p \<Rightarrow> returncode p = 0)"

definition listed :: "exn + completed_process \<Rightarrow> bool" where
  \<comment> \<open>the command ran and its output, stripped, is not empty\<close>
  "listed r = (case r of Inl e \<Rightarrow> False | Inr p \<Rightarrow> str_strip (stdout p) \<noteq> [])"

definition returns_with :: "('a \<Rightarrow> bool) \<Rightarrow> 'a io \<Rightarrow> bool" where
  \<comment> \<open>every value the computation returns satisfies \<open>P\<close>\<close>
  "returns_with P m = (\<forall>s x s'. m s = (Inr x, s') \<longrightarrow> P x)"

definition new_events :: "event list \<Rightarrow> event list \<Rightarrow> event list" where
  \<comment> \<open>what a computation started at log \<open>s\<close> and finished at log \<open>s'\<close> appended\<close>
  "new_events s s' = drop (length s) s'"


fun production_only :: "manager \<Rightarrow> event \<Rightarrow> bool" where
  \<comment> \<open>a build uses the production compose file alone, and so does every other command
      with a \<^verbatim>\<open>-f\<close> option, which then is the production \<^verbatim>\<open>up\<close>\<close>
  "production_only self (Run cmd r) =
     (''-f'' \<in> set cmd \<longrightarrow> cmd = [''docker-compose'', ''-f'', compose_file self, ''up'', ''-d''])"
| "production_only self (Popen cmd r) =
     (cmd = [''docker-compose'', ''-f'', compose_file self, ''build'', ''--no-cache''])"
| "production_only self ev = True"

definition emits :: "(event \<Rightarrow> bool) \<Rightarrow> 'a io \<Rightarrow> bool" where
  \<comment> \<open>the computation only appends to the log, and only events that satisfy \<open>P\<close>\<close>
  "emits P m = (\<forall>s r s'. m s = (r, s') \<longrightarrow> (\<exists>es. s' = s @ es \<and> list_all P es))"

definition only_interrupts :: "'a io \<Rightarrow> bool" where
  \<comment> \<open>the only exception that leaves the computation is \<^verbatim>\<open>KeyboardInterrupt\<close>\<close>
  "only_interrupts m = (\<forall>s e s'. m s = (Inl e, s') \<longrightarrow> e = KeyboardInterrupt)"

definition never_interrupted :: "'a io \<Rightarrow> bool" where
  "never_interrupted m = (\<forall>s s'. m s \<noteq> (Inl KeyboardInterrupt, s'))"

definition uninterrupted :: "world \<Rightarrow> bool" where
  \<comment> \<open>a world in which no operation is ever interrupted\<close>
  "uninterrupted W =
     ((\<forall>log cmd. run_outcome W log cmd \<noteq> Inl KeyboardInterrupt) \<and>
      (\<forall>log cmd. popen_outcome W log cmd \<noteq> Inl KeyboardInterrupt) \<and>
      (\<forall>log n. \<not> sleep_interrupted W log n) \<and>
      (\<forall>log p. load_outcome W log p \<noteq> Inl KeyboardInterrupt) \<and>
      (\<forall>log p config. dump_outcome W log p config \<noteq> Inl KeyboardInterrupt) \<and>
      (\<forall>log filename. package_resource W log filename \<noteq> Inl KeyboardInterrupt))"

definition reports_success :: "world \<Rightarrow> manager \<Rightarrow> string \<Rightarrow> bool \<Rightarrow> event list \<Rightarrow> bool" where
  \<comment> \<open>the action, started at log \<open>s\<close>, reports success: it returns True, or, for
      \<^verbatim>\<open>status\<close>, it returns\<close>
  "reports_success W manager action dev s =
     (if action = ''start'' then fst (start_services W manager dev s) = Inr True
      else if action = ''stop'' then fst (stop_services W manager s) = Inr True
      else if action = ''status'' then fst (show_status W manager s) = Inr ()
      else if action = ''cleanup'' then fst (cleanup W manager s) = Inr True
      else fst (deep_cleanup W manager s) = Inr True)"

definition formats_values :: "yaml \<Rightarrow> yaml list option" where
  \<comment> \<open>the values under \<^verbatim>\<open>search.formats\<close> (none when a key is absent), for a document
      that is a mapping whose \<^verbatim>\<open>search\<close> entry, if any, is a mapping and whose
      \<^verbatim>\<open>formats\<close> entry, if any, is a list of scalars\<close>
  "formats_values config =
     (case config of
        YMap kvs \<Rightarrow>
          (case map_of kvs ''search'' of
             None \<Rightarrow> Some []
           | Some (YMap skvs) \<Rightarrow>
               (case map_of skvs ''formats'' of
                  None \<Rightarrow> Some []
                | Some (YSeq xs) \<Rightarrow> if list_all hashable xs then Some xs else None
                | Some _ \<Rightarrow> None)
           | Some _ \<Rightarrow> None)
      | _ \<Rightarrow> None)"

definition with_required_formats :: "yaml \<Rightarrow> yaml" where
  \<comment> \<open>the document with \<^verbatim>\<open>search.formats\<close> set to the required list\<close>
  "with_required_formats config =
     (case config of
        YMap kvs \<Rightarrow>
          (case map_of kvs ''search'' of
             Some (YMap skvs) \<Rightarrow>
               YMap (AList.update ''search''
                       (YMap (AList.update ''formats'' required_formats skvs)) kvs)
           | _ \<Rightarrow>
               YMap (AList.update ''search'' (YMap [(''formats'', required_formats)]) kvs))
      | _ \<Rightarrow> config)"

definition required_set :: "yaml set" where
  "required_set = {YStr ''html'', YStr ''json'', YStr ''csv'', YStr ''rss''}"

section \<open>Example worlds\<close>

definition exited :: "int \<Rightarrow> string \<Rightarrow> exn + completed_process" where
  "exited rc out = Inr \<lparr>returncode = rc, stdout = out, stderr = []\<rparr>"

definition simple_world :: "(string list \<Rightarrow> exn + completed_process) \<Rightarrow> world" where
  \<comment> \<open>every command answers by \<open>f\<close> whatever happened before; all files exist, the
      settings file holds an empty mapping, nothing interrupts\<close>
  "simple_world f =
     \<lparr>run_outcome = (\<lambda>log cmd. f cmd),
      popen_outcome = (\<lambda>log cmd. f cmd),
      path_exists = (\<lambda>log p. True),
      sleep_interrupted = (\<lambda>log n. False),
      yaml_available = (\<lambda>log. True),
      load_outcome = (\<lambda>log p. Inr (YMap [])),
      dump_outcome = (\<lambda>log p config. Inr ()),
      cwd = ''/app'',
      package_resource = (\<lambda>log filename. Inr (''/pkg/'' @ filename))\<rparr>"

definition source_manager :: manager where
  "source_manager =
     \<lparr>compose_file = ''docker-compose.yml'', dev_compose_file = ''docker-compose.dev.yml''\<rparr>"

definition all_ok :: world where
  "all_ok = simple_world (\<lambda>cmd. exited 0 ''x'')"

definition runtime_missing :: world where
  "runtime_missing =
     simple_world (\<lambda>cmd. if cmd = [''docker'', ''--version''] then Inl FileNotFoundError
                          else exited 0 ''x'')"

definition daemon_down :: world where
  "daemon_down =
     simple_world (\<lambda>cmd. if cmd = [''docker'', ''info''] then exited 1 [] else exited 0 ''x'')"

definition daemon_unreachable :: world where
  "daemon_unreachable =
     simple_world (\<lambda>cmd. if cmd = [''docker'', ''info''] then Inl OtherException
                          else exited 0 ''x'')"

definition compose_missing :: world where
  "compose_missing =
     simple_world (\<lambda>cmd. if cmd = [''docker-compose'', ''--version''] then Inl FileNotFoundError
                          else exited 0 ''x'')"

definition no_files :: world where
  "no_files = all_ok\<lparr>path_exists := (\<lambda>log p. False)\<rparr>"





definition no_dev_file :: world where
  \<comment> \<open>no development compose file and no image yet\<close>
  "no_dev_file =
     (simple_world (\<lambda>cmd. if cmd = images_cmd then exited 0 [] else exited 0 ''x''))
     \<lparr>path_exists := (\<lambda>log p. p \<noteq> ''docker-compose.dev.yml'')\<rparr>"

definition no_compose_cli :: world where
  \<comment> \<open>the orchestrator is not installed\<close>
  "no_compose_cli =
     simple_world (\<lambda>cmd. if take 1 cmd = [''docker-compose''] then Inl FileNotFoundError
                          else exited 0 ''x'')"

definition interrupted :: world where
  \<comment> \<open>every command is interrupted\<close>
  "interrupted = simple_world (\<lambda>cmd. Inl KeyboardInterrupt)"

definition ps_fails :: world where
  "ps_fails =
     simple_world (\<lambda>cmd. if cmd = [''docker-compose'', ''ps''] then exited 1 []
                          else exited 0 ''x'')"

definition search_null :: world where
  \<comment> \<open>the settings file holds \<^verbatim>\<open>search:\<close> with nothing under it\<close>
  "search_null = all_ok\<lparr>load_outcome := (\<lambda>log p. Inr (YMap [(''search'', YNull)]))\<rparr>"

definition formats_reordered :: world where
  "formats_reordered =
     all_ok\<lparr>load_outcome := (\<lambda>log p. Inr (YMap [(''search'', YMap [(''formats'',
        YSeq [YStr ''rss'', YStr ''csv'', YStr ''json'', YStr ''html'', YStr ''json''])])]))\<rparr>"

definition formats_html_only :: world where
  "formats_html_only =
     all_ok\<lparr>load_outcome := (\<lambda>log p. Inr (YMap [(''use_default_settings'', YBool True),
        (''search'', YMap [(''safe_search'', YInt 0), (''formats'', YSeq [YStr ''html''])])]))\<rparr>"

section \<open>Computations applied to a log\<close>

lemma io_apply:
  "return x s = (Inr x, s)"
  "raise e s = (Inl e, s)"
  "bind m f s = (case m s of (Inl e, s') \<Rightarrow> (Inl e, s') | (Inr y, s') \<Rightarrow> f y s')"
  "try_except m1 c1 h1 s =
     (case m1 s of
        (Inl e, s') \<Rightarrow> if c1 e then h1 s' else (Inl e, s')
      | (Inr y1, s') \<Rightarrow> (Inr y1, s'))"
  "try_except_return m2 c2 h2 k2 s =
     (case m2 s of
        (Inl e, s') \<Rightarrow> if c2 e then h2 s' else (Inl e, s')
      | (Inr y2, s') \<Rightarrow> k2 y2 s')"
  "lift r s = (r, s)"
  by (simp_all add: return_def raise_def bind_def try_except_def try_except_return_def lift_def)

lemma effect_apply:
  "subprocess_run W cmd s = (run_outcome W s cmd, s @ [Run cmd (run_outcome W s cmd)])"
  "subprocess_Popen W cmd s = (popen_outcome W s cmd, s @ [Popen cmd (popen_outcome W s cmd)])"
  "Path_exists W p s = (Inr (path_exists W s p), s @ [Exists p (path_exists W s p)])"
  "time_sleep W n s =
     (if sleep_interrupted W s n then Inl KeyboardInterrupt else Inr (),
      s @ [Sleep n (sleep_interrupted W s n)])"
  "import_yaml W s = (Inr (yaml_available W s), s @ [ImportYaml (yaml_available W s)])"
  "yaml_safe_load W p s = (load_outcome W s p, s @ [LoadYaml p (load_outcome W s p)])"
  "yaml_dump W p config s =
     (dump_outcome W s p config, s @ [DumpYaml p config (dump_outcome W s p config)])"
  "get_package_resource W filename s =
     (package_resource W s filename, s @ [PackageResource filename (package_resource W s filename)])"
  by (simp_all add: subprocess_run_def subprocess_Popen_def Path_exists_def time_sleep_def
      import_yaml_def yaml_safe_load_def yaml_dump_def get_package_resource_def Let_def)

lemma returns_with_return: "P x \<Longrightarrow> returns_with P (return x)"
  by (simp add: returns_with_def return_def)

lemma returns_with_bind: "(\<And>x. returns_with P (f x)) \<Longrightarrow> returns_with P (bind m f)"
  by (auto simp: returns_with_def bind_def split: sum.splits prod.splits)

lemma returns_with_bind_same:
  "returns_with P m \<Longrightarrow> (\<And>x. P x \<Longrightarrow> returns_with P (f x)) \<Longrightarrow> returns_with P (bind m f)"
  unfolding returns_with_def bind_def
  by (fastforce split: sum.splits prod.splits if_splits)

lemma returns_with_try_except:
  "returns_with P m \<Longrightarrow> returns_with P h \<Longrightarrow> returns_with P (try_except m c h)"
  unfolding returns_with_def try_except_def
  by (fastforce split: sum.splits prod.splits if_splits)

lemma returns_with_try_except_return:
  "returns_with P h \<Longrightarrow> (\<And>x. returns_with P (k x))
   \<Longrightarrow> returns_with P (try_except_return m c h k)"
  unfolding returns_with_def try_except_return_def
  by (fastforce split: sum.splits prod.splits if_splits)

lemma returns_with_if:
  "(b \<Longrightarrow> returns_with P m) \<Longrightarrow> (\<not> b \<Longrightarrow> returns_with P n)
   \<Longrightarrow> returns_with P (if b then m else n)"
  by simp

lemma only_interrupts_return: "only_interrupts (return x)"
  by (simp add: only_interrupts_def return_def)

lemma only_interrupts_bind:
  "only_interrupts m \<Longrightarrow> (\<And>x. only_interrupts (f x)) \<Longrightarrow> only_interrupts (bind m f)"
  unfolding only_interrupts_def bind_def
  by (fastforce split: sum.splits prod.splits)

lemma only_interrupts_try_except:
  "only_interrupts h \<Longrightarrow> only_interrupts (try_except m is_Exception h)"
  unfolding only_interrupts_def try_except_def is_Exception_def
  by (fastforce split: sum.splits prod.splits if_splits)



lemma never_interrupted_return: "never_interrupted (return x)"
  by (simp add: never_interrupted_def return_def)

lemma never_interrupted_bind:
  "never_interrupted m \<Longrightarrow> (\<And>x. never_interrupted (f x)) \<Longrightarrow> never_interrupted (bind m f)"
  unfolding never_interrupted_def bind_def
  by (fastforce split: sum.splits prod.splits)

lemma never_interrupted_try_except:
  "never_interrupted m \<Longrightarrow> never_interrupted h \<Longrightarrow> never_interrupted (try_except m c h)"
  unfolding never_interrupted_def try_except_def
  by (fastforce split: sum.splits prod.splits if_splits)


lemma never_interrupted_effects:
  "never_interrupted (Path_exists W p)" "never_interrupted (import_yaml W)"
  "uninterrupted W \<Longrightarrow> never_interrupted (time_sleep W n)"
  "uninterrupted W \<Longrightarrow> never_interrupted (subprocess_run W cmd)"
  "uninterrupted W \<Longrightarrow> never_interrupted (subprocess_Popen W cmd)"
  "uninterrupted W \<Longrightarrow> never_interrupted (yaml_safe_load W p)"
  "uninterrupted W \<Longrightarrow> never_interrupted (yaml_dump W p config)"
  "uninterrupted W \<Longrightarrow> never_interrupted (get_package_resource W filename)"
  by (auto simp: never_interrupted_def uninterrupted_def effect_apply split: if_splits)





lemma emits_pure: "emits P (return x)" "emits P (raise e)" "emits P (lift r)"
  by (simp_all add: emits_def io_apply)

lemma emits_bind: "emits P m \<Longrightarrow> (\<And>x. emits P (f x)) \<Longrightarrow> emits P (bind m f)"
  unfolding emits_def bind_def
  by (fastforce split: sum.splits prod.splits)

lemma emits_try_except: "emits P m \<Longrightarrow> emits P h \<Longrightarrow> emits P (try_except m c h)"
  unfolding emits_def try_except_def
  by (fastforce split: sum.splits prod.splits if_splits)

lemma emits_try_except_return:
  "emits P m \<Longrightarrow> emits P h \<Longrightarrow> (\<And>x. emits P (k x)) \<Longrightarrow> emits P (try_except_return m c h k)"
  unfolding emits_def try_except_return_def
  by (fastforce split: sum.splits prod.splits if_splits)

lemma emits_if: "(b \<Longrightarrow> emits P m) \<Longrightarrow> (\<not> b \<Longrightarrow> emits P n) \<Longrightarrow> emits P (if b then m else n)"
  by simp

lemma emits_effects:
  "(\<And>r. P (Run cmd r)) \<Longrightarrow> emits P (subprocess_run W cmd)"
  "(\<And>r. P (Popen cmd r)) \<Longrightarrow> emits P (subprocess_Popen W cmd)"
  "(\<And>b. P (Exists p b)) \<Longrightarrow> emits P (Path_exists W p)"
  "(\<And>b. P (Sleep n b)) \<Longrightarrow> emits P (time_sleep W n)"
  "(\<And>b. P (ImportYaml b)) \<Longrightarrow> emits P (import_yaml W)"
  "(\<And>r. P (LoadYaml p r)) \<Longrightarrow> emits P (yaml_safe_load W p)"
  "(\<And>r. P (DumpYaml p config r)) \<Longrightarrow> emits P (yaml_dump W p config)"
  by (simp_all add: emits_def effect_apply)

lemma emits_dict_getitem: "emits P (dict_getitem d k)"
  by (simp add: dict_getitem_def emits_pure split: option.splits)

lemma emits_new_events: "emits P m \<Longrightarrow> list_all P (new_events s (snd (m s)))"
  unfolding emits_def new_events_def
  by (metis append_eq_conv_conj prod.collapse)

lemma bind_return: "bind (return x) f = f x"
  by (simp add: bind_def return_def)

lemma bind_ext: "(\<And>x. f x = g x) \<Longrightarrow> bind m f = bind m g"
  by (simp add: bind_def fun_eq_iff split: sum.splits prod.splits)

lemma if_ext: "(\<not> b \<Longrightarrow> x = y) \<Longrightarrow> (if b then z else x) = (if b then z else y)"
  by simp


lemma source_manager_simps:
  "compose_file source_manager = ''docker-compose.yml''"
  "dev_compose_file source_manager = ''docker-compose.dev.yml''"
  by (simp_all add: source_manager_def)

lemma simple_world_simps:
  "run_outcome (simple_world f) log cmd = f cmd"
  "popen_outcome (simple_world f) log cmd = f cmd"
  "path_exists (simple_world f) log p = True"
  "sleep_interrupted (simple_world f) log n = False"
  "yaml_available (simple_world f) log = True"
  "load_outcome (simple_world f) log p = Inr (YMap [])"
  "dump_outcome (simple_world f) log p config = Inr ()"
  "cwd (simple_world f) = ''/app''"
  "package_resource (simple_world f) log filename = Inr (''/pkg/'' @ filename)"
  by (simp_all add: simple_world_def)

lemma init_simple_world:
  "init (simple_world f) s =
     (Inr source_manager,
      s @ [Exists ''/app/src/aiforge'' True, Exists ''/app/docker-compose.yml'' True,
           Exists ''/app/pyproject.toml'' True])"
  by (simp add: init_def is_source_environment_def io_apply effect_apply Let_def simple_world_def
      path_join_def source_manager_def)

lemma handler_all: "(e = KeyboardInterrupt \<or> is_Exception e) = True"
  by (simp add: is_Exception_def)

section \<open>The image-removal filter\<close>

lemma str_split_not_Nil: "str_split sep s \<noteq> []"
  by (induction s) (auto split: list.splits)

lemma hd_str_split: "hd (str_split sep s) = takeWhile (\<lambda>c. c \<noteq> sep) s"
  by (induction s) (auto simp: str_split_not_Nil split: list.splits)

lemma str_contains_sublist: "str_contains sub s = sublist sub s"
  by (induction s) (auto simp: sublist_Cons_right)

lemma collect_images_filter:
  "collect_images lines acc =
     acc @ map (\<lambda>line. snd (str_split1 tab line))
             (filter (\<lambda>line. tab \<in> set line \<and>
                        marked_for_removal (repository_name (fst (str_split1 tab line)))) lines)"
  by (induction lines arbitrary: acc)
     (simp_all add: py_any_def preserve_images_def str_contains_sublist hd_str_split
        marked_for_removal_def repository_name_def split_beta Let_def)

text \<open>
  C1.  The images marked for removal are the image IDs (the text after the first
  tab) of exactly those listed lines, in order, that contain a tab and whose repository
  name is marked: the repository name is the part of the \<^verbatim>\<open>repository:tag\<close> field
  (the text before the first tab) before its first colon, and it is marked when, in lower
  case, it contains \<^verbatim>\<open>aiforge\<close> and none of \<^verbatim>\<open>python\<close>, \<^verbatim>\<open>searxng/searxng\<close>,
  \<^verbatim>\<open>nginx\<close>.  A preserved fragment therefore overrides the marker.
\<close>

theorem images_to_remove_iff_marked:
  "images_to_remove_of out =
     map (\<lambda>line. snd (str_split1 tab line))
       (filter (\<lambda>line. tab \<in> set line \<and>
                  marked_for_removal (repository_name (fst (str_split1 tab line))))
          (str_split newline (str_strip out)))"
  by (simp add: images_to_remove_of_def collect_images_filter)

lemma images_to_remove_example:
  "images_to_remove_of
     (''aiforge-engine:latest'' @ [tab] @ ''abc'' @ [newline] @
      ''python:3.11'' @ [tab] @ ''def'' @ [newline] @
      ''registry/AIForge-nginx:1'' @ [tab] @ ''ghi'' @ [newline] @
      ''AIFORGE/Core:2'' @ [tab] @ ''jkl'' @ [newline]) = [''abc'', ''jkl'']"
  by code_simp

section \<open>The environment detection\<close>

lemma dom_initial_checks: "dom initial_checks = check_keys"
  by (auto simp: initial_checks_def check_keys_def)

lemma in_check_keys:
  "''docker_available'' \<in> check_keys" "''docker_compose_available'' \<in> check_keys"
  "''docker_running'' \<in> check_keys" "''compose_file_exists'' \<in> check_keys"
  "''dev_compose_file_exists'' \<in> check_keys" "''aiforge_image_exists'' \<in> check_keys"
  by (simp_all add: check_keys_def)

lemma initial_checks_detected: "initial_checks = detected False False False False False False"
  by (simp add: initial_checks_def detected_def)

lemma detected_upd:
  "(detected a b c d e f)(''docker_available'' \<mapsto> x) = detected x b c d e f"
  "(detected a b c d e f)(''docker_compose_available'' \<mapsto> x) = detected a x c d e f"
  "(detected a b c d e f)(''docker_running'' \<mapsto> x) = detected a b x d e f"
  "(detected a b c d e f)(''compose_file_exists'' \<mapsto> x) = detected a b c x e f"
  "(detected a b c d e f)(''dev_compose_file_exists'' \<mapsto> x) = detected a b c d x f"
  "(detected a b c d e f)(''aiforge_image_exists'' \<mapsto> x) = detected a b c d e x"
  by (rule ext, simp add: detected_def)+

lemma check_docker_environment_keys:
  "returns_with (\<lambda>checks. dom checks = check_keys) (check_docker_environment W self)"
  unfolding check_docker_environment_def Let_def
  apply (intro returns_with_try_except returns_with_try_except_return returns_with_bind_same
      returns_with_bind returns_with_if returns_with_return)
  apply (simp_all add: dom_initial_checks insert_absorb in_check_keys)
  done

lemma detection_all_ok:
  "check_docker_environment all_ok source_manager [] =
     (Inr (detected True True True True True True),
      [Run [''docker'', ''--version''] (exited 0 ''x''),
       Run [''docker'', ''info''] (exited 0 ''x''),
       Run [''docker-compose'', ''--version''] (exited 0 ''x''),
       Exists ''docker-compose.yml'' True,
       Exists ''docker-compose.dev.yml'' True,
       Run images_cmd (exited 0 ''x'')])"
  by (simp add: check_docker_environment_def io_apply effect_apply Let_def all_ok_def
      simple_world_def exited_def source_manager_def initial_checks_detected detected_upd
      str_strip_def is_space_def)

lemma detection_daemon_down:
  "check_docker_environment daemon_down source_manager [] =
     (Inr (detected True False False False False False),
      [Run [''docker'', ''--version''] (exited 0 ''x''),
       Run [''docker'', ''info''] (exited 1 [])])"
  by (simp add: check_docker_environment_def io_apply effect_apply Let_def daemon_down_def
      simple_world_def exited_def source_manager_def initial_checks_detected detected_upd)

lemma detection_outcomes:
  "(let c1 = [''docker'', ''--version'']; o1 = run_outcome W s c1; s1 = s @ [Run c1 o1];
        c2 = [''docker'', ''info'']; o2 = run_outcome W s1 c2; s2 = s1 @ [Run c2 o2];
        c3 = [''docker-compose'', ''--version'']; o3 = run_outcome W s2 c3;
        s3 = s2 @ [Run c3 o3];
        e4 = path_exists W s3 (compose_file self); s4 = s3 @ [Exists (compose_file self) e4];
        e5 = path_exists W s4 (dev_compose_file self);
        s5 = s4 @ [Exists (dev_compose_file self) e5];
        o6 = run_outcome W s5 images_cmd; s6 = s5 @ [Run images_cmd o6]
    in
      ((o1 = Inl FileNotFoundError \<or> (\<exists>p. o1 = Inr p \<and> returncode p \<noteq> 0)) \<longrightarrow>
         check_docker_environment W self s =
           (Inr (detected False False False False False False), s1)) \<and>
      (succeeded o1 \<and>
       ((\<exists>e. o2 = Inl e \<and> is_Exception e) \<or> (\<exists>p. o2 = Inr p \<and> returncode p \<noteq> 0)) \<longrightarrow>
         check_docker_environment W self s =
           (Inr (detected True False False False False False), s2)) \<and>
      (succeeded o1 \<and> succeeded o2 \<and> (o3 = Inl FileNotFoundError \<or> (\<exists>p. o3 = Inr p)) \<and>
       ((\<exists>e. o6 = Inl e \<and> is_Exception e) \<or> (\<exists>p. o6 = Inr p)) \<longrightarrow>
         check_docker_environment W self s =
           (Inr (detected True (succeeded o3) True e4 e5 (listed o6)), s6)))"
proof -
  let ?c1 = "[''docker'', ''--version'']"
  let ?o1 = "run_outcome W s ?c1"
  let ?s1 = "s @ [Run ?c1 ?o1]"
  let ?c2 = "[''docker'', ''info'']"
  let ?o2 = "run_outcome W ?s1 ?c2"
  let ?s2 = "?s1 @ [Run ?c2 ?o2]"
  let ?c3 = "[''docker-compose'', ''--version'']"
  let ?o3 = "run_outcome W ?s2 ?c3"
  let ?s3 = "?s2 @ [Run ?c3 ?o3]"
  let ?e4 = "path_exists W ?s3 (compose_file self)"
  let ?s4 = "?s3 @ [Exists (compose_file self) ?e4]"
  let ?e5 = "path_exists W ?s4 (dev_compose_file self)"
  let ?s5 = "?s4 @ [Exists (dev_compose_file self) ?e5]"
  let ?o6 = "run_outcome W ?s5 images_cmd"
  let ?s6 = "?s5 @ [Run images_cmd ?o6]"
  note unfold = check_docker_environment_def io_apply effect_apply initial_checks_detected
    Let_def detected_upd
  have a: "check_docker_environment W self s =
             (Inr (detected False False False False False False), ?s1)"
    if "?o1 = Inl FileNotFoundError \<or> (\<exists>p. ?o1 = Inr p \<and> returncode p \<noteq> 0)"
    using that by (auto simp: unfold)
  have b: "check_docker_environment W self s =
             (Inr (detected True False False False False False), ?s2)"
    if "succeeded ?o1"
      "(\<exists>e. ?o2 = Inl e \<and> is_Exception e) \<or> (\<exists>p. ?o2 = Inr p \<and> returncode p \<noteq> 0)"
  proof -
    from that(1) obtain p1 where p1: "?o1 = Inr p1" "returncode p1 = 0"
      by (auto simp: succeeded_def split: sum.splits)
    from that(2) show ?thesis
      using p1 by (auto simp: unfold)
  qed
  have c: "check_docker_environment W self s =
             (Inr (detected True (succeeded ?o3) True ?e4 ?e5 (listed ?o6)), ?s6)"
    if "succeeded ?o1" "succeeded ?o2" "?o3 = Inl FileNotFoundError \<or> (\<exists>p. ?o3 = Inr p)"
      "(\<exists>e. ?o6 = Inl e \<and> is_Exception e) \<or> (\<exists>p. ?o6 = Inr p)"
  proof -
    from that(1) obtain p1 where p1: "?o1 = Inr p1" "returncode p1 = 0"
      by (auto simp: succeeded_def split: sum.splits)
    from that(2) obtain p2 where p2: "?o2 = Inr p2" "returncode p2 = 0"
      by (auto simp: succeeded_def split: sum.splits)
    from that(3,4) show ?thesis
      using p1 p2 by (auto simp: unfold succeeded_def listed_def)
  qed
  show ?thesis
    unfolding Let_def using a b c by blast
qed

lemma detection_runtime_missing:
  "check_docker_environment runtime_missing source_manager [] =
     (Inr (detected False False False False False False),
      [Run [''docker'', ''--version''] (Inl FileNotFoundError)])"
  by (simp add: check_docker_environment_def io_apply effect_apply Let_def runtime_missing_def
      simple_world_simps initial_checks_detected)

text \<open>
  C9.  Whenever the detection pass returns, the mapping it returns has exactly the six
  fixed keys (each bound to a truth value, by its type), whatever the external commands
  did and on whichever path the pass returned.  And it does return when the only
  exception that the commands raise is \<^verbatim>\<open>FileNotFoundError\<close>.
\<close>

theorem detection_result_keys:
  "(\<forall>checks. fst (check_docker_environment W self s) = Inr checks \<longrightarrow> dom checks = check_keys) \<and>
   ((\<forall>log cmd e. run_outcome W log cmd = Inl e \<longrightarrow> e = FileNotFoundError) \<longrightarrow>
      (\<exists>checks. fst (check_docker_environment W self s) = Inr checks))"
proof (intro conjI allI impI)
  fix checks
  assume "fst (check_docker_environment W self s) = Inr checks"
  then show "dom checks = check_keys"
    using check_docker_environment_keys [of W self]
    by (auto simp: returns_with_def fst_def split: prod.splits)
next
  assume fnf: "\<forall>log cmd e. run_outcome W log cmd = Inl e \<longrightarrow> e = FileNotFoundError"
  let ?c1 = "[''docker'', ''--version'']"
  let ?o1 = "run_outcome W s ?c1"
  let ?s1 = "s @ [Run ?c1 ?o1]"
  let ?c2 = "[''docker'', ''info'']"
  let ?o2 = "run_outcome W ?s1 ?c2"
  let ?s2 = "?s1 @ [Run ?c2 ?o2]"
  let ?c3 = "[''docker-compose'', ''--version'']"
  let ?o3 = "run_outcome W ?s2 ?c3"
  let ?s3 = "?s2 @ [Run ?c3 ?o3]"
  let ?e4 = "path_exists W ?s3 (compose_file self)"
  let ?s4 = "?s3 @ [Exists (compose_file self) ?e4]"
  let ?e5 = "path_exists W ?s4 (dev_compose_file self)"
  let ?s5 = "?s4 @ [Exists (dev_compose_file self) ?e5]"
  let ?o6 = "run_outcome W ?s5 images_cmd"
  note cases = detection_outcomes [of W s self, unfolded Let_def]
  have o: "r = Inl FileNotFoundError \<or> (\<exists>p. r = Inr p)"
    if "r = run_outcome W log cmd" for r log cmd
    using fnf that by (cases r) (metis, blast)
  have exc: "is_Exception FileNotFoundError"
    by (simp add: is_Exception_def)
  have s: "succeeded r \<or> r = Inl FileNotFoundError \<or> (\<exists>p. r = Inr p \<and> returncode p \<noteq> 0)"
    if "r = run_outcome W log cmd" for r log cmd
    using o [OF that] by (auto simp: succeeded_def)
  consider "?o1 = Inl FileNotFoundError \<or> (\<exists>p. ?o1 = Inr p \<and> returncode p \<noteq> 0)"
    | "succeeded ?o1" "(\<exists>e. ?o2 = Inl e \<and> is_Exception e) \<or> (\<exists>p. ?o2 = Inr p \<and> returncode p \<noteq> 0)"
    | "succeeded ?o1" "succeeded ?o2"
    using s [OF refl, of s ?c1] s [OF refl, of ?s1 ?c2] exc by blast
  then show "\<exists>checks. fst (check_docker_environment W self s) = Inr checks"
  proof cases
    case 1
    with cases show ?thesis by simp
  next
    case 2
    with cases show ?thesis by simp
  next
    case 3
    have "?o3 = Inl FileNotFoundError \<or> (\<exists>p. ?o3 = Inr p)"
      by (rule o [OF refl])
    moreover have "(\<exists>e. ?o6 = Inl e \<and> is_Exception e) \<or> (\<exists>p. ?o6 = Inr p)"
      using o [OF refl, of ?s5 images_cmd] exc by blast
    ultimately show ?thesis
      using cases 3 by simp
  qed
qed

theorem detection_result_keys_witness:
  "fst (check_docker_environment all_ok source_manager []) =
     Inr (detected True True True True True True)
   \<and> dom (detected True True True True True True) = check_keys
   \<and> fst (check_docker_environment runtime_missing source_manager []) =
     Inr (detected False False False False False False)
   \<and> dom (detected False False False False False False) = check_keys"
proof -
  have 1: "\<forall>log cmd e. run_outcome all_ok log cmd = Inl e \<longrightarrow> e = FileNotFoundError"
    by (simp add: all_ok_def simple_world_simps exited_def)
  have 2: "\<forall>log cmd e. run_outcome runtime_missing log cmd = Inl e \<longrightarrow> e = FileNotFoundError"
    by (simp add: runtime_missing_def simple_world_simps exited_def)
  show ?thesis
    using detection_result_keys [of all_ok source_manager "[]"]
      detection_result_keys [of runtime_missing source_manager "[]"] 1 2
    by (simp add: detection_all_ok detection_runtime_missing)
qed

text \<open>
  C2, as the code has it.  Write \<open>o1\<close>, \<open>o2\<close>, \<open>o3\<close>, \<open>o6\<close> for the outcomes of the
  four commands and \<open>e4\<close>, \<open>e5\<close> for the two file tests, each taken at the log the
  pass has produced by then.
  \<^item> If the runtime check fails (the command is not found, or exits with a non-zero
    status), the pass returns after that one command with all six entries false.
  \<^item> If the runtime check succeeds and the daemon check fails (any \<^verbatim>\<open>Exception\<close>, or a
    non-zero status), the pass returns after these two commands: nothing else is
    attempted, and only \<^verbatim>\<open>docker_available\<close> is true.
  \<^item> If both succeed, a failure of the orchestrator check (not found, or a non-zero
    status) and a failure of the image listing (any \<^verbatim>\<open>Exception\<close>, or empty output)
    are not fatal: the pass performs all six checks, in order, and each entry records the
    outcome of its own check.
\<close>

theorem detection_short_circuit:
  "(let c1 = [''docker'', ''--version'']; o1 = run_outcome W s c1; s1 = s @ [Run c1 o1];
        c2 = [''docker'', ''info'']; o2 = run_outcome W s1 c2; s2 = s1 @ [Run c2 o2];
        c3 = [''docker-compose'', ''--version'']; o3 = run_outcome W s2 c3;
        s3 = s2 @ [Run c3 o3];
        e4 = path_exists W s3 (compose_file self); s4 = s3 @ [Exists (compose_file self) e4];
        e5 = path_exists W s4 (dev_compose_file self);
        s5 = s4 @ [Exists (dev_compose_file self) e5];
        o6 = run_outcome W s5 images_cmd; s6 = s5 @ [Run images_cmd o6]
    in
      ((o1 = Inl FileNotFoundError \<or> (\<exists>p. o1 = Inr p \<and> returncode p \<noteq> 0)) \<longrightarrow>
         check_docker_environment W self s =
           (Inr (detected False False False False False False), s1)) \<and>
      (succeeded o1 \<and>
       ((\<exists>e. o2 = Inl e \<and> is_Exception e) \<or> (\<exists>p. o2 = Inr p \<and> returncode p \<noteq> 0)) \<longrightarrow>
         check_docker_environment W self s =
           (Inr (detected True False False False False False), s2)) \<and>
      (succeeded o1 \<and> succeeded o2 \<and> (o3 = Inl FileNotFoundError \<or> (\<exists>p. o3 = Inr p)) \<and>
       ((\<exists>e. o6 = Inl e \<and> is_Exception e) \<or> (\<exists>p. o6 = Inr p)) \<longrightarrow>
         check_docker_environment W self s =
           (Inr (detected True (succeeded o3) True e4 e5 (listed o6)), s6)))"
  by (rule detection_outcomes)

theorem detection_short_circuit_witness:
  "check_docker_environment runtime_missing source_manager [] =
     (Inr (detected False False False False False False),
      [Run [''docker'', ''--version''] (Inl FileNotFoundError)])
   \<and> check_docker_environment daemon_unreachable source_manager [] =
     (Inr (detected True False False False False False),
      [Run [''docker'', ''--version''] (exited 0 ''x''),
       Run [''docker'', ''info''] (Inl OtherException)])
   \<and> check_docker_environment compose_missing source_manager [] =
     (Inr (detected True False True True True True),
      [Run [''docker'', ''--version''] (exited 0 ''x''),
       Run [''docker'', ''info''] (exited 0 ''x''),
       Run [''docker-compose'', ''--version''] (Inl FileNotFoundError),
       Exists ''docker-compose.yml'' True,
       Exists ''docker-compose.dev.yml'' True,
       Run images_cmd (exited 0 ''x'')])"
  using detection_short_circuit [of runtime_missing "[]" source_manager]
    detection_short_circuit [of daemon_unreachable "[]" source_manager]
    detection_short_circuit [of compose_missing "[]" source_manager]
  by (simp add: Let_def runtime_missing_def daemon_unreachable_def compose_missing_def
      simple_world_def exited_def source_manager_def succeeded_def listed_def is_Exception_def
      images_cmd_def str_strip_def is_space_def)

text \<open>
  C2 as the specification words it fails: with the runtime installed and the daemon
  check exiting with status 1, the pass stops after two commands.  The orchestrator
  check, the two file tests and the image listing are not attempted, although the daemon
  check is not the runtime-availability check.
\<close>

theorem detection_daemon_failure_is_fatal:
  "check_docker_environment daemon_down source_manager [] =
     (Inr (detected True False False False False False),
      [Run [''docker'', ''--version''] (exited 0 ''x''),
       Run [''docker'', ''info''] (exited 1 [])])
   \<and> path_exists daemon_down
       [Run [''docker'', ''--version''] (exited 0 ''x''),
        Run [''docker'', ''info''] (exited 1 [])] (compose_file source_manager)"
  by (rule conjI, rule detection_daemon_down, simp add: daemon_down_def simple_world_def)

section \<open>Building the images\<close>



lemma build_all_ok:
  "build_images_if_needed all_ok source_manager False [] =
     (Inr True, [Run images_cmd (exited 0 ''x'')])"
  by (simp add: build_images_if_needed_def io_apply effect_apply Let_def all_ok_def
      simple_world_def source_manager_def exited_def str_strip_def is_space_def newline_def
      images_cmd_def)




section \<open>Stopping the services\<close>

text \<open>
  C7.  If the production compose file does not exist, \<^verbatim>\<open>stop_services\<close> returns False
  and the test of the file is its only effect: no command is run.  If the file exists,
  the teardown command is run, and the function returns True exactly when the command
  ran and exited with status zero; when it exited with another status the function
  returns False.
\<close>

theorem stop_needs_compose_file:
  "(let ex = path_exists W s (compose_file self); s1 = s @ [Exists (compose_file self) ex];
        down = [''docker-compose'', ''-f'', compose_file self, ''down''];
        r = run_outcome W s1 down
    in (\<not> ex \<longrightarrow> stop_services W self s = (Inr False, s1)) \<and>
       (ex \<longrightarrow> snd (stop_services W self s) = s1 @ [Run down r] \<and>
               (fst (stop_services W self s) = Inr True \<longleftrightarrow> succeeded r) \<and>
               (\<forall>p. r = Inr p \<longrightarrow> fst (stop_services W self s) = Inr (returncode p = 0))))"
  by (auto simp: stop_services_def subprocess_run_check_def io_apply effect_apply Let_def
      succeeded_def split: sum.splits)

theorem stop_needs_compose_file_witness:
  "stop_services no_files source_manager [] = (Inr False, [Exists ''docker-compose.yml'' False])
   \<and> stop_services all_ok source_manager [] =
       (Inr True,
        [Exists ''docker-compose.yml'' True,
         Run [''docker-compose'', ''-f'', ''docker-compose.yml'', ''down''] (exited 0 ''x'')])"
  using stop_needs_compose_file [of no_files "[]" source_manager]
    stop_needs_compose_file [of all_ok "[]" source_manager]
  by (simp add: Let_def no_files_def all_ok_def simple_world_def source_manager_def exited_def
      succeeded_def prod_eq_iff)

section \<open>Starting the services\<close>

lemma health_loop_only_interrupts: "only_interrupts (health_loop W svcs)"
  by (induction svcs) (auto intro!: only_interrupts_return only_interrupts_bind only_interrupts_try_except)

lemma health_loop_never_interrupted: "uninterrupted W \<Longrightarrow> never_interrupted (health_loop W svcs)"
  by (induction svcs)
     (auto intro!: never_interrupted_return never_interrupted_bind never_interrupted_try_except
        never_interrupted_effects)












lemma health_loop_production_only: "emits (production_only self) (health_loop W svcs)"
  by (induction svcs) (auto intro!: emits_pure emits_bind emits_try_except emits_effects)

lemma searxng_production_only: "emits (production_only self) (check_and_update_searxng_formats W)"
  unfolding check_and_update_searxng_formats_def
  by (auto intro!: emits_pure emits_bind emits_try_except emits_effects emits_if split: option.splits)

lemma detection_production_only: "emits (production_only self) (check_docker_environment W self)"
  unfolding check_docker_environment_def Let_def
  by (intro emits_pure emits_bind emits_try_except emits_try_except_return emits_effects emits_if)
     (simp_all add: images_cmd_def)

lemma build_production_only: "emits (production_only self) (build_images_if_needed W self False)"
  unfolding build_images_if_needed_def Let_def
  apply (simp add: bind_return cong: if_cong)
  apply (intro emits_pure emits_bind emits_try_except emits_try_except_return emits_effects emits_if)
  apply (simp_all add: images_cmd_def)
  done

lemma start_production_only: "emits (production_only self) (start_services W self False)"
  unfolding start_services_def Let_def show_service_urls_def check_service_health_def
  by (intro emits_pure emits_bind emits_try_except emits_effects emits_if emits_dict_getitem
      detection_production_only health_loop_production_only searxng_production_only)
     (simp_all add: build_production_only)

text \<open>
  C6.  When the detection reports the development compose file absent, a start with
  development mode requested is the same computation as a start without it: the same
  result and the same log, so the request is no reason for failure.  No log entry of
  that run passes a second compose file: the build command, when it is run, and every
  command with a \<^verbatim>\<open>-f\<close> option name the production compose file alone.  When the
  other four preconditions hold, the run goes on after the detection with the build step
  in production mode and, if that succeeds, with the teardown and the \<^verbatim>\<open>up\<close> command
  on the production compose file.
\<close>

theorem start_dev_falls_back:
  assumes "fst (check_docker_environment W self s) = Inr checks"
    and "checks ''dev_compose_file_exists'' = Some False"
  shows "start_services W self True s = start_services W self False s \<and>
         list_all (production_only self) (new_events s (snd (start_services W self True s))) \<and>
         (checks ''docker_available'' = Some True \<and> checks ''docker_running'' = Some True \<and>
          checks ''docker_compose_available'' = Some True \<and>
          checks ''compose_file_exists'' = Some True \<longrightarrow>
            start_services W self True s =
              bind (build_images_if_needed W self False) (\<lambda>built.
                if \<not> built then return False else
                try_except
                  (bind (subprocess_run W [''docker-compose'', ''down'']) (\<lambda>_.
                   bind (subprocess_run W
                           [''docker-compose'', ''-f'', compose_file self, ''up'', ''-d''])
                     (\<lambda>result.
                   if returncode result = 0 then
                     bind show_service_urls (\<lambda>_.
                     bind (time_sleep W 10) (\<lambda>_.
                     bind (check_service_health W) (\<lambda>_.
                     bind (check_and_update_searxng_formats W) (\<lambda>_.
                     return True))))
                   else return False)))
                  is_Exception (return False))
                (snd (check_docker_environment W self s)))"
proof -
  obtain s1 where env: "check_docker_environment W self s = (Inr checks, s1)"
    using assms(1) by (cases "check_docker_environment W self s") simp
  have eq: "start_services W self True s = start_services W self False s"
    unfolding start_services_def
    apply (subst (1 2) io_apply(3))
    apply (simp only: env prod.case sum.case)
    apply (rule arg_cong [where f = "\<lambda>m. m s1"])
    apply (intro bind_ext if_ext)
    apply (simp add: dict_getitem_def bind_return assms(2))
    done
  have prod: "start_services W self False s =
              bind (build_images_if_needed W self False) (\<lambda>built.
                if \<not> built then return False else
                try_except
                  (bind (subprocess_run W [''docker-compose'', ''down'']) (\<lambda>_.
                   bind (subprocess_run W
                           [''docker-compose'', ''-f'', compose_file self, ''up'', ''-d''])
                     (\<lambda>result.
                   if returncode result = 0 then
                     bind show_service_urls (\<lambda>_.
                     bind (time_sleep W 10) (\<lambda>_.
                     bind (check_service_health W) (\<lambda>_.
                     bind (check_and_update_searxng_formats W) (\<lambda>_.
                     return True))))
                   else return False)))
                  is_Exception (return False)) s1"
    if "checks ''docker_available'' = Some True" "checks ''docker_running'' = Some True"
       "checks ''docker_compose_available'' = Some True"
       "checks ''compose_file_exists'' = Some True"
    unfolding start_services_def
    apply (subst io_apply(3))
    apply (simp only: env prod.case sum.case)
    apply (simp add: dict_getitem_def bind_return that Let_def cong: if_cong)
    done
  show ?thesis
    using eq prod env emits_new_events [OF start_production_only [of self W], of s] by simp
qed

lemma detection_no_dev_file:
  "check_docker_environment no_dev_file source_manager [] =
     (Inr (detected True True True True False False),
      [Run [''docker'', ''--version''] (exited 0 ''x''),
       Run [''docker'', ''info''] (exited 0 ''x''),
       Run [''docker-compose'', ''--version''] (exited 0 ''x''),
       Exists ''docker-compose.yml'' True,
       Exists ''docker-compose.dev.yml'' False,
       Run images_cmd (exited 0 [])])"
  by (simp add: check_docker_environment_def io_apply effect_apply Let_def no_dev_file_def
      simple_world_def exited_def source_manager_def initial_checks_detected detected_upd
      str_strip_def is_space_def images_cmd_def)

lemma no_dev_file_simps:
  "run_outcome no_dev_file log cmd = (if cmd = images_cmd then exited 0 [] else exited 0 ''x'')"
  "popen_outcome no_dev_file log cmd = (if cmd = images_cmd then exited 0 [] else exited 0 ''x'')"
  "path_exists no_dev_file log p = (p \<noteq> ''docker-compose.dev.yml'')"
  "sleep_interrupted no_dev_file log n = False"
  "yaml_available no_dev_file log = True"
  "load_outcome no_dev_file log p = Inr (YMap [])"
  "dump_outcome no_dev_file log p config = Inr ()"
  by (simp_all add: no_dev_file_def simple_world_def)

lemma start_no_dev_file:
  "start_services no_dev_file source_manager False [] =
   (Inr True,
  [Run [''docker'', ''--version''] (exited 0 ''x''),
   Run [''docker'', ''info''] (exited 0 ''x''),
   Run [''docker-compose'', ''--version''] (exited 0 ''x''),
   Exists ''docker-compose.yml'' True,
   Exists ''docker-compose.dev.yml'' False,
   Run images_cmd (exited 0 []),
   Run images_cmd (exited 0 []),
   Popen [''docker-compose'', ''-f'', ''docker-compose.yml'', ''build'', ''--no-cache'']
     (exited 0 ''x''),
   Run [''docker-compose'', ''down''] (exited 0 ''x''),
   Run [''docker-compose'', ''-f'', ''docker-compose.yml'', ''up'', ''-d''] (exited 0 ''x''),
   Sleep 10 False,
   Run [''docker'', ''ps'', ''--filter'', ''name=aiforge-engine'', ''--format'', ''{{.Status}}'']
     (exited 0 ''x''),
   Run [''docker'', ''ps'', ''--filter'', ''name=aiforge-searxng'', ''--format'', ''{{.Status}}'']
     (exited 0 ''x''),
   Run [''docker'', ''ps'', ''--filter'', ''name=aiforge-nginx'', ''--format'', ''{{.Status}}'']
     (exited 0 ''x''),
   ImportYaml True, Exists ''searxng/settings.yml'' True,
   LoadYaml ''searxng/settings.yml'' (Inr (YMap [])),
   DumpYaml ''searxng/settings.yml''
    (YMap [(''search'', YMap [(''formats'', required_formats)])])
    (Inr ())])"
  by (simp add: start_services_def detection_no_dev_file io_apply dict_getitem_def detected_def
      build_images_if_needed_def effect_apply Let_def show_service_urls_def
      check_service_health_def services_def check_and_update_searxng_formats_def
      update_formats_def ebind_def required_formats_def settings_file_def
      no_dev_file_simps source_manager_simps exited_def
      str_strip_def is_space_def images_cmd_def is_Exception_def)

theorem start_dev_falls_back_witness:
  "start_services no_dev_file source_manager True [] =
   (Inr True,
  [Run [''docker'', ''--version''] (exited 0 ''x''),
   Run [''docker'', ''info''] (exited 0 ''x''),
   Run [''docker-compose'', ''--version''] (exited 0 ''x''),
   Exists ''docker-compose.yml'' True,
   Exists ''docker-compose.dev.yml'' False,
   Run images_cmd (exited 0 []),
   Run images_cmd (exited 0 []),
   Popen [''docker-compose'', ''-f'', ''docker-compose.yml'', ''build'', ''--no-cache'']
     (exited 0 ''x''),
   Run [''docker-compose'', ''down''] (exited 0 ''x''),
   Run [''docker-compose'', ''-f'', ''docker-compose.yml'', ''up'', ''-d''] (exited 0 ''x''),
   Sleep 10 False,
   Run [''docker'', ''ps'', ''--filter'', ''name=aiforge-engine'', ''--format'', ''{{.Status}}'']
     (exited 0 ''x''),
   Run [''docker'', ''ps'', ''--filter'', ''name=aiforge-searxng'', ''--format'', ''{{.Status}}'']
     (exited 0 ''x''),
   Run [''docker'', ''ps'', ''--filter'', ''name=aiforge-nginx'', ''--format'', ''{{.Status}}'']
     (exited 0 ''x''),
   ImportYaml True, Exists ''searxng/settings.yml'' True,
   LoadYaml ''searxng/settings.yml'' (Inr (YMap [])),
   DumpYaml ''searxng/settings.yml''
    (YMap [(''search'', YMap [(''formats'', required_formats)])])
    (Inr ())])
   \<and> list_all (production_only source_manager)
        (new_events [] (snd (start_services no_dev_file source_manager True [])))"
proof -
  have p1: "fst (check_docker_environment no_dev_file source_manager []) =
            Inr (detected True True True True False False)"
    by (simp add: detection_no_dev_file)
  have p2: "detected True True True True False False ''dev_compose_file_exists'' = Some False"
    by (simp add: detected_def)
  note r = start_dev_falls_back [OF p1 p2]
  show ?thesis
    using conjunct1 [OF r] conjunct1 [OF conjunct2 [OF r]] by (simp add: start_no_dev_file)
qed

section \<open>The SearXNG settings\<close>

lemma py_set_required: "py_set required_formats = Inr required_set"
  by (simp add: required_formats_def required_set_def)

lemma map_of_update_same: "map_of (AList.update k v kvs) k = Some v"
  by (simp add: update_conv')

lemma update_formats_spec:
  assumes "formats_values config = Some xs"
  shows "update_formats config =
           Inr (if set xs \<noteq> required_set then Some (with_required_formats config) else None)"
proof -
  from assms obtain kvs where c: "config = YMap kvs"
    by (cases config) (simp_all add: formats_values_def)
  show ?thesis
  proof (cases "map_of kvs ''search''")
    case None
    then have k: "''search'' \<notin> fst ` set kvs"
      by (simp add: map_of_eq_None_iff)
    from None assms c have xs: "xs = []"
      by (simp add: formats_values_def)
    have "set xs \<noteq> required_set"
      by (simp add: xs required_set_def)
    then show ?thesis
      using None k c
      by (simp add: update_formats_def ebind_def map_of_update_same py_set_required
          with_required_formats_def xs required_set_def)
  next
    case (Some v)
    with assms c obtain skvs where v: "v = YMap skvs"
      by (cases v) (simp_all add: formats_values_def)
    from Some have k: "''search'' \<in> fst ` set kvs"
      by (metis domI dom_map_of_conv_image_fst)
    show ?thesis
    proof (cases "map_of skvs ''formats''")
      case None
      from None assms c Some v have xs: "xs = []"
        by (simp add: formats_values_def)
      show ?thesis
        using None k c Some v
        by (simp add: update_formats_def ebind_def py_set_required
            with_required_formats_def xs required_set_def)
    next
      case f: (Some w)
      with assms c Some v have w: "w = YSeq xs" "list_all hashable xs"
        by (cases w; simp add: formats_values_def split: if_splits)+
      show ?thesis
        using f k c Some v w
        by (simp add: update_formats_def ebind_def py_set_required
            with_required_formats_def)
    qed
  qed
qed

lemma formats_values_with_required:
  "formats_values config = Some xs \<Longrightarrow>
   formats_values (with_required_formats config) =
     Some [YStr ''html'', YStr ''json'', YStr ''csv'', YStr ''rss'']"
  by (auto simp: formats_values_def with_required_formats_def map_of_update_same
      required_formats_def split: yaml.splits option.splits if_splits)

lemma settings_worlds:
  "yaml_available formats_reordered log" "path_exists formats_reordered log p"
  "load_outcome formats_reordered log p =
     Inr (YMap [(''search'', YMap [(''formats'',
        YSeq [YStr ''rss'', YStr ''csv'', YStr ''json'', YStr ''html'', YStr ''json''])])])"
  "yaml_available formats_html_only log" "path_exists formats_html_only log p"
  "load_outcome formats_html_only log p =
     Inr (YMap [(''use_default_settings'', YBool True),
        (''search'', YMap [(''safe_search'', YInt 0), (''formats'', YSeq [YStr ''html''])])])"
  "dump_outcome formats_html_only log p config = Inr ()"
  "yaml_available search_null log" "path_exists search_null log p"
  "load_outcome search_null log p = Inr (YMap [(''search'', YNull)])"
  by (simp_all add: formats_reordered_def formats_html_only_def search_null_def all_ok_def
      simple_world_simps)

text \<open>
  C4, as the code has it.  Let the YAML library be available, the settings file exist
  and parse to a mapping whose \<^verbatim>\<open>search\<close> entry is absent or a mapping, and whose
  \<^verbatim>\<open>formats\<close> entry is absent or a list of scalars \<open>xs\<close>.
  \<^item> If the set of \<open>xs\<close> is the set of the four required formats, the step writes
    nothing (its log ends with the read) and returns False.
  \<^item> Otherwise the step writes the file once, with the document in which
    \<^verbatim>\<open>search.formats\<close> is the required list, and returns True exactly when that write
    succeeded.
\<close>

theorem formats_rewritten_iff_differ:
  assumes "yaml_available W s"
    and "path_exists W (s @ [ImportYaml True]) settings_file"
    and "s2 = s @ [ImportYaml True, Exists settings_file True]"
    and "load_outcome W s2 settings_file = Inr config"
    and "formats_values config = Some xs"
    and "s3 = s2 @ [LoadYaml settings_file (Inr config)]"
    and "w = dump_outcome W s3 settings_file (with_required_formats config)"
  shows "(set xs = required_set \<longrightarrow>
            check_and_update_searxng_formats W s = (Inr False, s3)) \<and>
         (set xs \<noteq> required_set \<longrightarrow>
            snd (check_and_update_searxng_formats W s) =
              s3 @ [DumpYaml settings_file (with_required_formats config) w] \<and>
            (fst (check_and_update_searxng_formats W s) = Inr True \<longleftrightarrow> w = Inr ()) \<and>
            formats_values (with_required_formats config) =
              Some [YStr ''html'', YStr ''json'', YStr ''csv'', YStr ''rss''])"
  using assms formats_values_with_required [OF assms(5)]
  by (auto simp: check_and_update_searxng_formats_def io_apply effect_apply update_formats_spec
      split: sum.splits)

theorem formats_rewritten_iff_differ_witness:
  "check_and_update_searxng_formats formats_reordered [] =
     (Inr False,
      [ImportYaml True, Exists settings_file True,
       LoadYaml settings_file
         (Inr (YMap [(''search'', YMap [(''formats'',
            YSeq [YStr ''rss'', YStr ''csv'', YStr ''json'', YStr ''html'', YStr ''json''])])]))])
   \<and> check_and_update_searxng_formats formats_html_only [] =
     (Inr True,
      [ImportYaml True, Exists settings_file True,
       LoadYaml settings_file
         (Inr (YMap [(''use_default_settings'', YBool True),
            (''search'', YMap [(''safe_search'', YInt 0), (''formats'', YSeq [YStr ''html''])])])),
       DumpYaml settings_file
         (YMap [(''use_default_settings'', YBool True),
            (''search'', YMap [(''safe_search'', YInt 0), (''formats'', required_formats)])])
         (Inr ())])"
proof -
  have "check_and_update_searxng_formats formats_reordered [] =
     (Inr False,
      [ImportYaml True, Exists settings_file True,
       LoadYaml settings_file
         (Inr (YMap [(''search'', YMap [(''formats'',
            YSeq [YStr ''rss'', YStr ''csv'', YStr ''json'', YStr ''html'', YStr ''json''])])]))])"
    using formats_rewritten_iff_differ [where W = formats_reordered and s = "[]"
        and xs = "[YStr ''rss'', YStr ''csv'', YStr ''json'', YStr ''html'', YStr ''json'']"
        and config = "YMap [(''search'', YMap [(''formats'',
            YSeq [YStr ''rss'', YStr ''csv'', YStr ''json'', YStr ''html'', YStr ''json''])])]",
        OF _ _ refl _ _ refl refl]
    by (simp add: settings_worlds formats_values_def required_set_def insert_commute)
  moreover
  have "check_and_update_searxng_formats formats_html_only [] =
     (Inr True,
      [ImportYaml True, Exists settings_file True,
       LoadYaml settings_file
         (Inr (YMap [(''use_default_settings'', YBool True),
            (''search'', YMap [(''safe_search'', YInt 0), (''formats'', YSeq [YStr ''html''])])])),
       DumpYaml settings_file
         (YMap [(''use_default_settings'', YBool True),
            (''search'', YMap [(''safe_search'', YInt 0), (''formats'', required_formats)])])
         (Inr ())])"
    using formats_rewritten_iff_differ [where W = formats_html_only and s = "[]"
        and xs = "[YStr ''html'']"
        and config = "YMap [(''use_default_settings'', YBool True),
            (''search'', YMap [(''safe_search'', YInt 0), (''formats'', YSeq [YStr ''html''])])]",
        OF _ _ refl _ _ refl refl]
    by (simp add: settings_worlds formats_values_def required_set_def with_required_formats_def
        prod_eq_iff)
  ultimately show ?thesis by simp
qed

text \<open>
  C4 as the specification words it fails: the file parses to a mapping whose \<^verbatim>\<open>search\<close>
  entry is null.  There is no value under \<^verbatim>\<open>search.formats\<close>, so the set differs from
  the required one, but \<^verbatim>\<open>config["search"].get\<close> raises, the handler returns False and
  the file is not written.
\<close>

theorem formats_not_rewritten_when_search_null:
  "check_and_update_searxng_formats search_null [] =
     (Inr False,
      [ImportYaml True, Exists settings_file True,
       LoadYaml settings_file (Inr (YMap [(''search'', YNull)]))])"
  by (simp add: check_and_update_searxng_formats_def io_apply effect_apply settings_worlds
      update_formats_def ebind_def is_Exception_def)

section \<open>The command line\<close>

lemma init_examples:
  "init all_ok [] =
     (Inr source_manager,
      [Exists ''/app/src/aiforge'' True, Exists ''/app/docker-compose.yml'' True,
       Exists ''/app/pyproject.toml'' True])"
  "init no_compose_cli [] =
     (Inr source_manager,
      [Exists ''/app/src/aiforge'' True, Exists ''/app/docker-compose.yml'' True,
       Exists ''/app/pyproject.toml'' True])"
  "init interrupted [] =
     (Inr source_manager,
      [Exists ''/app/src/aiforge'' True, Exists ''/app/docker-compose.yml'' True,
       Exists ''/app/pyproject.toml'' True])"
  by (simp_all add: all_ok_def no_compose_cli_def interrupted_def init_simple_world)

lemma stop_all_ok:
  "fst (stop_services all_ok source_manager s) = Inr True"
  by (simp add: stop_services_def subprocess_run_check_def io_apply effect_apply all_ok_def
      simple_world_def exited_def)

lemma stop_no_compose_cli:
  "fst (stop_services no_compose_cli source_manager s) = Inl FileNotFoundError"
  by (simp add: stop_services_def subprocess_run_check_def io_apply effect_apply
      no_compose_cli_def simple_world_def exited_def)

lemma cleanup_interrupted:
  "fst (cleanup interrupted source_manager s) = Inl KeyboardInterrupt"
  by (simp add: cleanup_def io_apply effect_apply interrupted_def simple_world_def
      is_Exception_def)

text \<open>
  C8.  For an action among the five choices, once the manager is constructed, the exit
  code is 0 when the dispatched action reports success and 1 otherwise: when it returns
  False, and when any exception leaves it, \<^verbatim>\<open>KeyboardInterrupt\<close> included.
\<close>

theorem exit_code_reports_success:
  assumes "action \<in> set choices" and "init W s = (Inr manager, s1)"
  shows "fst (main W action dev s) = Inr (if reports_success W manager action dev s1 then 0 else 1)"
proof -
  have m: "main W action dev s =
     bind (try_except
              (if action = ''start'' then start_services W manager dev
               else if action = ''stop'' then stop_services W manager
               else if action = ''status'' then bind (show_status W manager) (\<lambda>_. return True)
               else if action = ''cleanup'' then cleanup W manager
               else if action = ''deep-cleanup'' then deep_cleanup W manager
               else return False)
              (\<lambda>e. True) (return False)) (\<lambda>success.
      return (if success then 0 else 1)) s1"
    using assms by (simp add: main_def io_apply(3) handler_all)
  have t: "fst (bind (try_except m (\<lambda>e. True) (return False)) (\<lambda>success. return (if success then 0 else 1)) s1)
      = Inr (if fst (m s1) = Inr True then 0 else (1::int))" for m
    by (cases "m s1") (auto simp: io_apply split: sum.splits)
  have u: "(fst (bind (show_status W manager) (\<lambda>_. return True) s1) = Inr True)
      = (fst (show_status W manager s1) = Inr ())"
    by (cases "show_status W manager s1") (auto simp: io_apply split: sum.splits)
  from assms(1) consider "action = ''start''" | "action = ''stop''" | "action = ''status''"
    | "action = ''cleanup''" | "action = ''deep-cleanup''"
    by (auto simp: choices_def)
  then show ?thesis
    using m by cases (simp_all add: t u reports_success_def)
qed

theorem exit_code_reports_success_witness:
  "fst (main all_ok ''stop'' False []) = Inr 0
   \<and> fst (main no_compose_cli ''stop'' False []) = Inr 1
   \<and> fst (main interrupted ''cleanup'' False []) = Inr 1"
proof -
  have "fst (main all_ok ''stop'' False []) = Inr 0"
    using exit_code_reports_success [OF _ init_examples(1), of "''stop''" False]
    by (simp add: choices_def reports_success_def stop_all_ok)
  moreover
  have "fst (main no_compose_cli ''stop'' False []) = Inr 1"
    using exit_code_reports_success [OF _ init_examples(2), of "''stop''" False]
    by (simp add: choices_def reports_success_def stop_no_compose_cli)
  moreover
  have "fst (main interrupted ''cleanup'' False []) = Inr 1"
    using exit_code_reports_success [OF _ init_examples(3), of "''cleanup''" False]
    by (simp add: choices_def reports_success_def cleanup_interrupted)
  ultimately show ?thesis by simp
qed

lemma health_value:
  "uninterrupted W \<Longrightarrow> fst (check_service_health W s) = Inr ()"
proof -
  assume u: "uninterrupted W"
  obtain r s' where rs: "check_service_health W s = (r, s')"
    by (cases "check_service_health W s")
  have "r \<noteq> Inl e" for e
    using health_loop_only_interrupts [of W services] health_loop_never_interrupted [OF u, of services] rs
    unfolding only_interrupts_def never_interrupted_def check_service_health_def
    by metis
  then show ?thesis using rs by (cases r) auto
qed

lemma no_compose_cli_uninterrupted: "uninterrupted no_compose_cli"
  by (simp add: uninterrupted_def no_compose_cli_def simple_world_simps exited_def)

lemma init_ps_fails:
  "init ps_fails [] =
     (Inr source_manager,
      [Exists ''/app/src/aiforge'' True, Exists ''/app/docker-compose.yml'' True,
       Exists ''/app/pyproject.toml'' True])"
  by (simp add: ps_fails_def init_simple_world)

text \<open>
  C10, as the code has it.  Let \<open>r\<close> be the outcome of the process-list command.
  \<^item> If the command exits with a non-zero status, the \<^verbatim>\<open>CalledProcessError\<close> is caught
    inside \<^verbatim>\<open>show_status\<close>, which returns (no value) after that one command, and the
    exit code is 0.
  \<^item> When nothing is interrupted, the exit code is 0 exactly when the command ran to
    its end, with whatever status (or raised \<^verbatim>\<open>CalledProcessError\<close>).  Any other
    exception, such as \<^verbatim>\<open>FileNotFoundError\<close> for a missing orchestrator, leaves
    \<^verbatim>\<open>show_status\<close>, is caught by \<^verbatim>\<open>main\<close>, and the exit code is 1.
\<close>

theorem status_exit_code:
  assumes "init W s = (Inr manager, s1)"
    and "r = run_outcome W s1 [''docker-compose'', ''ps'']"
  shows "(\<forall>p. r = Inr p \<and> returncode p \<noteq> 0 \<longrightarrow>
            show_status W manager s1 = (Inr (), s1 @ [Run [''docker-compose'', ''ps''] r]) \<and>
            main W ''status'' dev s = (Inr 0, s1 @ [Run [''docker-compose'', ''ps''] r])) \<and>
         (uninterrupted W \<longrightarrow>
            fst (main W ''status'' dev s) =
              Inr (if (\<exists>p. r = Inr p) \<or> r = Inl CalledProcessError then 0 else 1))"
proof -
  let ?ps = "[''docker-compose'', ''ps'']"
  let ?s2 = "s1 @ [Run ?ps r]"
  have run: "subprocess_run W ?ps s1 = (r, ?s2)"
    by (simp add: effect_apply assms(2))
  have m: "main W ''status'' dev s =
     bind (try_except (bind (show_status W manager) (\<lambda>_. return True))
              (\<lambda>e. True) (return False)) (\<lambda>success.
      return (if success then 0 else 1)) s1"
    using assms(1) by (simp add: main_def io_apply(3) handler_all choices_def)
  have a: "show_status W manager s1 = (Inr (), ?s2)" if "r = Inr p" "returncode p \<noteq> 0" for p
    using that by (simp add: show_status_def subprocess_run_check_def io_apply run)
  have b: "fst (main W ''status'' dev s) =
           Inr (if (\<exists>p. r = Inr p) \<or> r = Inl CalledProcessError then 0 else 1)"
    if u: "uninterrupted W"
  proof (cases r)
    case (Inl e)
    then show ?thesis
      by (simp add: m show_status_def subprocess_run_check_def io_apply run)
  next
    case (Inr p)
    show ?thesis
    proof (cases "returncode p = 0")
      case True
      obtain s' where h: "check_service_health W ?s2 = (Inr (), s')"
        using health_value [OF u, of ?s2] by (cases "check_service_health W ?s2") simp
      show ?thesis
        using Inr True h by (simp add: m show_status_def subprocess_run_check_def io_apply run)
    next
      case False
      then show ?thesis
        using Inr a [OF Inr False] by (simp add: m io_apply)
    qed
  qed
  show ?thesis
    using a b by (auto simp: m io_apply)
qed

theorem status_exit_code_witness:
  "main ps_fails ''status'' False [] =
     (Inr 0,
      [Exists ''/app/src/aiforge'' True, Exists ''/app/docker-compose.yml'' True,
       Exists ''/app/pyproject.toml'' True,
       Run [''docker-compose'', ''ps''] (exited 1 [])])
   \<and> fst (main all_ok ''status'' False []) = Inr 0
   \<and> fst (main no_compose_cli ''status'' False []) = Inr 1"
proof -
  have "main ps_fails ''status'' False [] =
     (Inr 0,
      [Exists ''/app/src/aiforge'' True, Exists ''/app/docker-compose.yml'' True,
       Exists ''/app/pyproject.toml'' True,
       Run [''docker-compose'', ''ps''] (exited 1 [])])"
    using status_exit_code [OF init_ps_fails refl, of False]
    by (simp add: ps_fails_def simple_world_simps exited_def)
  moreover
  have "uninterrupted all_ok"
    by (simp add: uninterrupted_def all_ok_def simple_world_simps exited_def)
  then have "fst (main all_ok ''status'' False []) = Inr 0"
    using status_exit_code [OF init_examples(1) refl, of False]
    by (simp add: all_ok_def simple_world_simps exited_def)
  moreover
  have "fst (main no_compose_cli ''status'' False []) = Inr 1"
    using status_exit_code [OF init_examples(2) refl, of False] no_compose_cli_uninterrupted
    by (simp add: no_compose_cli_def simple_world_simps exited_def)
  ultimately show ?thesis by simp
qed

text \<open>
  C10 as the specification words it fails: the orchestrator is not installed, nothing
  is interrupted, the process-list command raises \<^verbatim>\<open>FileNotFoundError\<close>, which
  \<^verbatim>\<open>show_status\<close> does not catch, and the status action exits with code 1.
\<close>

theorem status_exits_1_without_orchestrator:
  "main no_compose_cli ''status'' False [] =
     (Inr 1,
      [Exists ''/app/src/aiforge'' True, Exists ''/app/docker-compose.yml'' True,
       Exists ''/app/pyproject.toml'' True,
       Run [''docker-compose'', ''ps''] (Inl FileNotFoundError)])"
  by (simp add: main_def choices_def io_apply init_examples show_status_def
      subprocess_run_check_def effect_apply is_Exception_def)
     (simp add: no_compose_cli_def simple_world_simps io_apply)


end
